theory Spec2Isabelle
  imports Complex_Main "HOL-Library.AList" "HOL-Library.Multiset"
begin

section \<open>Go's \<open>int64\<close> arithmetic\<close>

text \<open>
  An \<open>int64\<close> is modelled as an \<open>int\<close> in the range \<open>MinInt64 .. MaxInt64\<close>; every
  arithmetic operation of the source is followed by the two's complement wrap-around
  that Go performs.  Go's integer division truncates towards zero and panics on a
  zero divisor; the panic is a \<open>None\<close> result of the function that divides.
\<close>

definition MaxInt64 :: int where
  "MaxInt64 = 9223372036854775807"

definition MinInt64 :: int where
  "MinInt64 = - 9223372036854775808"

definition is_int64 :: "int \<Rightarrow> bool" where
  "is_int64 x \<longleftrightarrow> MinInt64 \<le> x \<and> x \<le> MaxInt64"

definition wrap64 :: "int \<Rightarrow> int" where
  "wrap64 x = (x + 9223372036854775808) mod 18446744073709551616 - 9223372036854775808"

definition add64 :: "int \<Rightarrow> int \<Rightarrow> int" where
  "add64 a b = wrap64 (a + b)"

definition sub64 :: "int \<Rightarrow> int \<Rightarrow> int" where
  "sub64 a b = wrap64 (a - b)"

definition mul64 :: "int \<Rightarrow> int \<Rightarrow> int" where
  "mul64 a b = wrap64 (a * b)"

definition truncDiv :: "int \<Rightarrow> int \<Rightarrow> int" where
  "truncDiv a b = (if (a < 0) = (b < 0) then \<bar>a\<bar> div \<bar>b\<bar> else - (\<bar>a\<bar> div \<bar>b\<bar>))"

definition div64 :: "int \<Rightarrow> int \<Rightarrow> int" where
  "div64 a b = wrap64 (truncDiv a b)"

section \<open>Resource names, quantities and maps\<close>

text \<open>
  \<open>corev1.ResourceName\<close> is a string type.  The names the two plugins compare against are
  constructors of their own: \<open>cpu\<close>, \<open>memory\<close>, \<open>pods\<close> and \<open>ephemeral-storage\<close> of the
  Kubernetes API, the current batch names \<open>BatchCPU\<close> and \<open>BatchMemory\<close> and the deprecated
  ones \<open>KoordBatchCPU\<close> and \<open>KoordBatchMemory\<close> of package \<open>apis/extension\<close>.  Any other
  name is \<open>OtherResource\<close>.
\<close>

datatype ResourceName =
    ResourceCPU
  | ResourceMemory
  | ResourcePods
  | ResourceEphemeralStorage
  | BatchCPU
  | BatchMemory
  | KoordBatchCPU
  | KoordBatchMemory
  | OtherResource string

text \<open>
  A Go map that the source iterates over (\<open>map[corev1.ResourceName]int64\<close>) is an
  association list; reading a missing key gives the zero value, and an assignment
  \<open>m[k] = v\<close> is \<open>AList.update\<close>.
\<close>

type_synonym int64map = "(ResourceName \<times> int) list"

definition lookup0 :: "int64map \<Rightarrow> ResourceName \<Rightarrow> int" where
  "lookup0 m k = (case map_of m k of None \<Rightarrow> 0 | Some v \<Rightarrow> v)"

text \<open>
  \<open>resource.Quantity\<close> of the Kubernetes API is a decimal fixed-point number: here a
  rational.  \<open>Value\<close> and \<open>MilliValue\<close> read it in units and in thousandths, rounding
  away from zero; the readings are taken to fit an \<open>int64\<close>.  \<open>Cmp\<close> compares the
  numbers and \<open>IsZero\<close> tests for 0.
\<close>

type_synonym Quantity = rat

definition roundAway :: "rat \<Rightarrow> int" where
  "roundAway x = (if 0 \<le> x then \<lceil>x\<rceil> else \<lfloor>x\<rfloor>)"

definition Value :: "Quantity \<Rightarrow> int" where
  "Value q = roundAway q"

definition MilliValue :: "Quantity \<Rightarrow> int" where
  "MilliValue q = roundAway (q * 1000)"

definition Cmp :: "Quantity \<Rightarrow> Quantity \<Rightarrow> int" where
  "Cmp q y = (if q < y then - 1 else if q = y then 0 else 1)"

definition IsZero :: "Quantity \<Rightarrow> bool" where
  "IsZero q \<longleftrightarrow> q = 0"

text \<open>
  A \<open>corev1.ResourceList\<close> is only ever read by key in the two plugins: a map.  Reading a
  missing key gives the zero quantity.
\<close>

type_synonym ResourceList = "ResourceName \<rightharpoonup> Quantity"

definition quantityAt :: "ResourceList \<Rightarrow> ResourceName \<Rightarrow> Quantity" where
  "quantityAt rl k = (case rl k of None \<Rightarrow> 0 | Some q \<Rightarrow> q)"

text \<open>
  \<open>math.Round\<close> rounds to the nearest integer, halves away from zero.  The \<open>float64\<close>
  arithmetic of the source is modelled by exact rational arithmetic; the two agree as
  long as the integers involved and their products stay below \<open>2^53\<close>.
\<close>

definition mathRound :: "rat \<Rightarrow> int" where
  "mathRound x = (if 0 \<le> x then \<lfloor>x + 1 / 2\<rfloor> else \<lceil>x - 1 / 2\<rceil>)"

section \<open>Time\<close>

text \<open>
  A \<open>time.Time\<close> is an instant, counted in nanoseconds; a \<open>time.Duration\<close> is an
  \<open>int64\<close> of nanoseconds.  \<open>Sub\<close> saturates at the largest and smallest duration, and
  \<open>time.Since t\<close> is \<open>Sub now t\<close> for the clock reading \<open>now\<close>, which the model takes as
  an argument.
\<close>

type_synonym Time = int
type_synonym Duration = int

definition Second :: Duration where
  "Second = 1000000000"

definition After :: "Time \<Rightarrow> Time \<Rightarrow> bool" where
  "After t u \<longleftrightarrow> t > u"

definition Before :: "Time \<Rightarrow> Time \<Rightarrow> bool" where
  "Before t u \<longleftrightarrow> t < u"

definition Sub :: "Time \<Rightarrow> Time \<Rightarrow> Duration" where
  "Sub t u = (if t - u > MaxInt64 then MaxInt64 else if t - u < MinInt64 then MinInt64 else t - u)"

definition Since :: "Time \<Rightarrow> Time \<Rightarrow> Duration" where
  "Since now t = Sub now t"

section \<open>Package loadaware: data\<close>

record NodeMetricCollectPolicy =
  ReportIntervalSeconds :: "int option"

text \<open>
  Of a \<open>NodeMetric\<close> object the plugin reads \<open>Spec.CollectPolicy\<close>, \<open>Status.UpdateTime\<close>
  and \<open>Status.NodeMetric\<close>, three pointers, and under the last one
  \<open>NodeUsage.ResourceList\<close>.
\<close>

record NodeMetric =
  Spec_CollectPolicy :: "NodeMetricCollectPolicy option"
  Status_UpdateTime :: "Time option"
  Status_NodeMetric_NodeUsage :: "ResourceList option"

record LoadAwareSchedulingArgs =
  FilterExpiredNodeMetrics :: "bool option"
  NodeMetricExpirationSeconds :: "int option"
  ResourceWeights :: int64map
  UsageThresholds :: int64map
  EstimatedScalingFactors :: int64map

text \<open>
  A pod, as far as the two plugins read it: the resource requirements of its containers
  and init containers, the overhead, and the priority class that
  \<open>extension.GetPriorityClass\<close> finds for it.
\<close>

record Container =
  Requests :: ResourceList
  Limits :: ResourceList

record Pod =
  Containers :: "Container list"
  InitContainers :: "Container list"
  Overhead :: "ResourceList option"
  PriorityClass :: string

text \<open>
  A node: its name, \<open>Status.Allocatable\<close>, and what
  \<open>extension.GetCustomUsageThresholds\<close> reads from its annotations, an error or the
  thresholds.
\<close>

record Node =
  NodeName :: string
  Status_Allocatable :: ResourceList
  CustomUsageThresholds :: "string + int64map"

text \<open>\<open>framework.Resource\<close> and \<open>framework.NodeInfo\<close> of the scheduler framework.\<close>

record Resource =
  MilliCPU :: int
  Memory :: int
  EphemeralStorage :: int
  AllowedPodNumber :: int
  ScalarResources :: "ResourceName \<rightharpoonup> int"

record NodeInfo =
  node :: "Node option"
  Requested :: Resource
  Allocatable :: Resource

datatype Code = Success | Error | Unschedulable

record Status =
  code :: Code
  reasons :: "string list"

definition NewStatus :: "Code \<Rightarrow> string list \<Rightarrow> Status" where
  "NewStatus c rs = \<lparr>code = c, reasons = rs\<rparr>"

text \<open>The outcome of a lister's \<open>Get\<close>: the object, a not-found error, or another error.\<close>

datatype 'a GetResult = Found 'a | NotFound | GetError string

text \<open>
  Modelled from the spec: the assignment record of the tracker, which the plugin declares
  with its cache.  A record holds the workload and the assignment timestamp, the two
  fields that \<open>estimatedAssignedPodUsage\<close> reads; the node name is the key under which
  the plugin finds the records of a node.
\<close>

record podAssignInfo =
  timestamp :: Time
  pod :: Pod

text \<open>
  The plugin with what it reaches through its fields: the arguments, the node metric
  lister, the node infos of the scheduler's snapshot, and the items of the assignment
  cache by node name.  Three functions are parameters of the model, kept as fields here.
  Two come from outside the plugin: \<open>resourceapi.PodRequestsAndLimits\<close> of Kubernetes, and
  \<open>extension.TranslateResourceNameByPriorityClass\<close>, the translation of a resource name
  by priority class that the surrounding system supplies.  The third, \<open>usagePercent\<close>,
  is the expression
  \<open>int64(math.Round(float64(used) / float64(total) * 100))\<close> of \<open>Filter\<close>.  It rounds
  the quotient and the product to \<open>float64\<close> before \<open>math.Round\<close>, so it is not the
  rounded exact quotient: 1150 of 2000 gives 57, not 58.
\<close>

record Plugin =
  args :: LoadAwareSchedulingArgs
  nodeMetricLister :: "string \<Rightarrow> NodeMetric GetResult"
  nodeInfos :: "string \<Rightarrow> NodeInfo GetResult"
  podInfoItems :: "string \<Rightarrow> podAssignInfo list"
  PodRequestsAndLimits :: "Pod \<Rightarrow> ResourceList \<times> ResourceList"
  TranslateResourceNameByPriorityClass :: "string \<Rightarrow> ResourceName \<Rightarrow> ResourceName"
  usagePercent :: "int \<Rightarrow> int \<Rightarrow> int"

definition ErrReasonNodeMetricExpired :: string where
  "ErrReasonNodeMetricExpired = ''node(s) nodeMetric expired''"

definition DefaultMilliCPURequest :: int where
  "DefaultMilliCPURequest = 250"

definition DefaultMemoryRequest :: int where
  "DefaultMemoryRequest = 200 * 1024 * 1024"

definition DefaultNodeMetricReportInterval :: Duration where
  "DefaultNodeMetricReportInterval = 60 * Second"

section \<open>Package loadaware: expiration and the report interval\<close>

definition isNodeMetricExpired :: "Time \<Rightarrow> NodeMetric option \<Rightarrow> int \<Rightarrow> bool" where
  "isNodeMetricExpired now nodeMetric nodeMetricExpirationSeconds =
     (case nodeMetric of
        None \<Rightarrow> True
      | Some nm \<Rightarrow>
          (case Status_UpdateTime nm of
             None \<Rightarrow> True
           | Some updateTime \<Rightarrow>
               nodeMetricExpirationSeconds > 0 \<and>
               Since now updateTime \<ge> mul64 nodeMetricExpirationSeconds Second))"

definition getNodeMetricReportInterval :: "NodeMetric \<Rightarrow> Duration" where
  "getNodeMetricReportInterval nodeMetric =
     (case Spec_CollectPolicy nodeMetric of
        None \<Rightarrow> DefaultNodeMetricReportInterval
      | Some policy \<Rightarrow>
          (case ReportIntervalSeconds policy of
             None \<Rightarrow> DefaultNodeMetricReportInterval
           | Some seconds \<Rightarrow> mul64 seconds Second))"

section \<open>Package loadaware: the resource estimator\<close>

definition estimatedUsedByResource ::
  "ResourceList \<Rightarrow> ResourceList \<Rightarrow> ResourceName \<Rightarrow> int \<Rightarrow> int" where
  "estimatedUsedByResource requests limits resourceName scalingFactor =
     (let limitQuantity = quantityAt limits resourceName;
          requestQuantity = quantityAt requests resourceName;
          (scalingFactor', quantity) =
             (if Cmp limitQuantity requestQuantity > 0 then (100, limitQuantity)
              else (scalingFactor, requestQuantity))
      in if IsZero quantity then
           (if resourceName = ResourceCPU \<or> resourceName = BatchCPU then DefaultMilliCPURequest
            else if resourceName = ResourceMemory \<or> resourceName = BatchMemory then DefaultMemoryRequest
            else 0)
         else if resourceName = ResourceCPU then
           (let estimatedUsed =
                  mathRound (of_int (MilliValue quantity) * of_int scalingFactor' / 100)
            in if estimatedUsed > MilliValue limitQuantity then MilliValue limitQuantity
               else estimatedUsed)
         else
           (let estimatedUsed =
                  mathRound (of_int (Value quantity) * of_int scalingFactor' / 100)
            in if estimatedUsed > Value limitQuantity then Value limitQuantity
               else estimatedUsed))"

text \<open>The loop of \<open>estimatedPodUsed\<close> over the weight map; only its keys are used.\<close>

fun estimatedPodUsedLoop ::
  "(ResourceName \<Rightarrow> ResourceName) \<Rightarrow> ResourceList \<Rightarrow> ResourceList \<Rightarrow> int64map \<Rightarrow>
   int64map \<Rightarrow> int64map \<Rightarrow> int64map" where
  "estimatedPodUsedLoop translate requests limits scalingFactors [] estimatedUsed = estimatedUsed"
| "estimatedPodUsedLoop translate requests limits scalingFactors ((resourceName, weight) # rest) estimatedUsed =
     (let realResourceName = translate resourceName
      in estimatedPodUsedLoop translate requests limits scalingFactors rest
           (AList.update resourceName
              (estimatedUsedByResource requests limits realResourceName
                 (lookup0 scalingFactors resourceName))
              estimatedUsed))"

definition estimatedPodUsed :: "Plugin \<Rightarrow> Pod \<Rightarrow> int64map \<Rightarrow> int64map \<Rightarrow> int64map" where
  "estimatedPodUsed p pod' resourceWeights scalingFactors =
     (case PodRequestsAndLimits p pod' of
        (requests, limits) \<Rightarrow>
          (let priorityClass = PriorityClass pod'
           in estimatedPodUsedLoop (TranslateResourceNameByPriorityClass p priorityClass)
                requests limits scalingFactors resourceWeights []))"

section \<open>Package loadaware: the assignment tracker\<close>

text \<open>\<open>for resourceName, value := range estimated { estimatedUsed[resourceName] += value }\<close>\<close>

fun addAll :: "int64map \<Rightarrow> int64map \<Rightarrow> int64map" where
  "addAll [] estimatedUsed = estimatedUsed"
| "addAll ((resourceName, v) # rest) estimatedUsed =
     addAll rest (AList.update resourceName (add64 (lookup0 estimatedUsed resourceName) v) estimatedUsed)"

text \<open>
  The loop of \<open>estimatedAssignedPodUsage\<close> over the items of the node.  The condition
  reads \<open>nodeMetric.Status.UpdateTime.Time\<close>: with a nil \<open>UpdateTime\<close> the first item
  panics, which is the result \<open>None\<close>.
\<close>

fun estimatedAssignedPodUsageLoop ::
  "Plugin \<Rightarrow> NodeMetric \<Rightarrow> Duration \<Rightarrow> podAssignInfo list \<Rightarrow> int64map \<Rightarrow> int64map option" where
  "estimatedAssignedPodUsageLoop p nodeMetric nodeMetricReportInterval [] estimatedUsed =
     Some estimatedUsed"
| "estimatedAssignedPodUsageLoop p nodeMetric nodeMetricReportInterval (assignInfo # rest) estimatedUsed =
     (case Status_UpdateTime nodeMetric of
        None \<Rightarrow> None
      | Some updateTime \<Rightarrow>
          if After (timestamp assignInfo) updateTime \<or>
             Before (timestamp assignInfo) updateTime \<and>
               Sub updateTime (timestamp assignInfo) < nodeMetricReportInterval
          then
            (let estimated = estimatedPodUsed p (pod assignInfo) (ResourceWeights (args p))
                               (EstimatedScalingFactors (args p))
             in estimatedAssignedPodUsageLoop p nodeMetric nodeMetricReportInterval rest
                  (addAll estimated estimatedUsed))
          else estimatedAssignedPodUsageLoop p nodeMetric nodeMetricReportInterval rest estimatedUsed)"

definition estimatedAssignedPodUsage :: "Plugin \<Rightarrow> string \<Rightarrow> NodeMetric \<Rightarrow> int64map option" where
  "estimatedAssignedPodUsage p nodeName nodeMetric =
     (let nodeMetricReportInterval = getNodeMetricReportInterval nodeMetric
      in estimatedAssignedPodUsageLoop p nodeMetric nodeMetricReportInterval
           (podInfoItems p nodeName) [])"

section \<open>Package loadaware: the node scorer\<close>

definition MaxNodeScore :: int where
  "MaxNodeScore = 100"

text \<open>\<open>leastRequestedScore\<close>, with the operations of \<open>int64\<close>.\<close>

definition leastRequestedScore :: "int \<Rightarrow> int \<Rightarrow> int" where
  "leastRequestedScore requested capacity =
     (if capacity = 0 then 0
      else if requested > capacity then 0
      else div64 (mul64 (sub64 capacity requested) MaxNodeScore) capacity)"

text \<open>
  The loop of \<open>loadAwareSchedulingScorer\<close> over the weight map, on the pair
  \<open>(nodeScore, weightSum)\<close>.
\<close>

fun scorerLoop :: "int64map \<Rightarrow> int64map \<Rightarrow> int64map \<Rightarrow> int \<times> int \<Rightarrow> int \<times> int" where
  "scorerLoop [] used allocatable acc = acc"
| "scorerLoop ((resourceName, weight) # rest) used allocatable (nodeScore, weightSum) =
     (let resourceScore = leastRequestedScore (lookup0 used resourceName) (lookup0 allocatable resourceName)
      in scorerLoop rest used allocatable
           (add64 nodeScore (mul64 resourceScore weight), add64 weightSum weight))"

text \<open>The final division panics when the weights sum to zero: \<open>None\<close>.\<close>

definition loadAwareSchedulingScorer :: "int64map \<Rightarrow> int64map \<Rightarrow> int64map \<Rightarrow> int option" where
  "loadAwareSchedulingScorer resToWeightMap used allocatable =
     (case scorerLoop resToWeightMap used allocatable (0, 0) of
        (nodeScore, weightSum) \<Rightarrow>
          if weightSum = 0 then None else Some (div64 nodeScore weightSum))"


section \<open>Package loadaware: Filter and Score\<close>

text \<open>The name of a resource as a string, for the messages.\<close>

fun resourceNameString :: "ResourceName \<Rightarrow> string" where
  "resourceNameString ResourceCPU = ''cpu''"
| "resourceNameString ResourceMemory = ''memory''"
| "resourceNameString ResourcePods = ''pods''"
| "resourceNameString ResourceEphemeralStorage = ''ephemeral-storage''"
| "resourceNameString BatchCPU = ''kubernetes.io/batch-cpu''"
| "resourceNameString BatchMemory = ''kubernetes.io/batch-memory''"
| "resourceNameString KoordBatchCPU = ''koordinator.sh/batch-cpu''"
| "resourceNameString KoordBatchMemory = ''koordinator.sh/batch-memory''"
| "resourceNameString (OtherResource s) = s"

definition ErrReasonUsageExceedThreshold :: "ResourceName \<Rightarrow> string" where
  "ErrReasonUsageExceedThreshold resourceName =
     ''node(s) '' @ resourceNameString resourceName @ '' usage exceed threshold''"

text \<open>
  The loop of \<open>Filter\<close> over the usage thresholds; it returns at the first resource whose
  usage reaches its threshold.  The usage in percent is the \<open>float64\<close> expression of the
  source applied to the two readings in thousandths, the function \<open>usagePercent\<close> of
  the plugin.
\<close>

fun usageThresholdsLoop ::
  "(int \<Rightarrow> int \<Rightarrow> int) \<Rightarrow> ResourceList \<Rightarrow> ResourceList \<Rightarrow> int64map \<Rightarrow> Status option" where
  "usageThresholdsLoop percent allocatable nodeUsage [] = None"
| "usageThresholdsLoop percent allocatable nodeUsage ((resourceName, threshold) # rest) =
     (if threshold = 0 then usageThresholdsLoop percent allocatable nodeUsage rest
      else
        (let total = quantityAt allocatable resourceName
         in if IsZero total then usageThresholdsLoop percent allocatable nodeUsage rest
            else
              (let used = quantityAt nodeUsage resourceName;
                   usage = percent (MilliValue used) (MilliValue total)
               in if usage \<ge> threshold
                  then Some (NewStatus Unschedulable [ErrReasonUsageExceedThreshold resourceName])
                  else usageThresholdsLoop percent allocatable nodeUsage rest)))"

text \<open>\<open>Filter\<close> of the load-aware plugin; \<open>None\<close> is the nil status, which admits the node.\<close>

definition Filter_loadaware :: "Plugin \<Rightarrow> Time \<Rightarrow> Pod \<Rightarrow> NodeInfo \<Rightarrow> Status option" where
  "Filter_loadaware p now pod' nodeInfo =
     (case node nodeInfo of
        None \<Rightarrow> Some (NewStatus Error [''node not found''])
      | Some node' \<Rightarrow>
          (case nodeMetricLister p (NodeName node') of
             NotFound \<Rightarrow> None
           | GetError err \<Rightarrow> Some (NewStatus Error [err])
           | Found nodeMetric \<Rightarrow>
               if FilterExpiredNodeMetrics (args p) = Some True \<and>
                  NodeMetricExpirationSeconds (args p) \<noteq> None \<and>
                  isNodeMetricExpired now (Some nodeMetric) (the (NodeMetricExpirationSeconds (args p)))
               then Some (NewStatus Unschedulable [ErrReasonNodeMetricExpired])
               else
                 (let usageThresholds =
                        (case CustomUsageThresholds node' of
                           Inl err \<Rightarrow> UsageThresholds (args p)
                         | Inr customUsageThresholds \<Rightarrow>
                             if length customUsageThresholds > 0 then customUsageThresholds
                             else UsageThresholds (args p))
                  in if length usageThresholds > 0 then
                       (case Status_NodeMetric_NodeUsage nodeMetric of
                          None \<Rightarrow> None
                        | Some nodeUsage \<Rightarrow>
                            usageThresholdsLoop (usagePercent p) (Status_Allocatable node')
                              nodeUsage usageThresholds)
                     else None)))"

text \<open>
  The loop of \<open>Score\<close> over the weight map, on the pair \<open>(estimatedUsed, allocatable)\<close>.
\<close>

fun allocatableLoop ::
  "Node \<Rightarrow> NodeMetric \<Rightarrow> int64map \<Rightarrow> int64map \<times> int64map \<Rightarrow> int64map \<times> int64map" where
  "allocatableLoop node' nodeMetric [] acc = acc"
| "allocatableLoop node' nodeMetric ((resourceName, weight) # rest) (estimatedUsed, allocatable) =
     (let quantity = quantityAt (Status_Allocatable node') resourceName;
          allocatable' =
            AList.update resourceName
              (if resourceName = ResourceCPU then MilliValue quantity else Value quantity)
              allocatable;
          estimatedUsed' =
            (case Status_NodeMetric_NodeUsage nodeMetric of
               None \<Rightarrow> estimatedUsed
             | Some nodeUsage \<Rightarrow>
                 (let quantity = quantityAt nodeUsage resourceName
                  in AList.update resourceName
                       (add64 (lookup0 estimatedUsed resourceName)
                          (if resourceName = ResourceCPU then MilliValue quantity else Value quantity))
                       estimatedUsed))
      in allocatableLoop node' nodeMetric rest (estimatedUsed', allocatable'))"

text \<open>
  \<open>Score\<close>: the score and the status, or \<open>None\<close> where the source panics (the nil
  \<open>UpdateTime\<close> read in \<open>estimatedAssignedPodUsage\<close>, the division by a zero weight sum).
\<close>

definition Score :: "Plugin \<Rightarrow> Time \<Rightarrow> Pod \<Rightarrow> string \<Rightarrow> (int \<times> Status option) option" where
  "Score p now pod' nodeName =
     (case nodeInfos p nodeName of
        NotFound \<Rightarrow>
          Some (0, Some (NewStatus Error
            [''getting node '' @ [CHR 0x22] @ nodeName @ [CHR 0x22] @ '' from Snapshot: not found'']))
      | GetError err \<Rightarrow>
          Some (0, Some (NewStatus Error
            [''getting node '' @ [CHR 0x22] @ nodeName @ [CHR 0x22] @ '' from Snapshot: '' @ err]))
      | Found nodeInfo \<Rightarrow>
          (case node nodeInfo of
             None \<Rightarrow> Some (0, Some (NewStatus Error [''node not found'']))
           | Some node' \<Rightarrow>
               (case nodeMetricLister p nodeName of
                  NotFound \<Rightarrow> Some (0, None)
                | GetError err \<Rightarrow> Some (0, Some (NewStatus Error [err]))
                | Found nodeMetric \<Rightarrow>
                    if NodeMetricExpirationSeconds (args p) \<noteq> None \<and>
                       isNodeMetricExpired now (Some nodeMetric)
                         (the (NodeMetricExpirationSeconds (args p)))
                    then Some (0, None)
                    else
                      (let estimatedUsed =
                             estimatedPodUsed p pod' (ResourceWeights (args p))
                               (EstimatedScalingFactors (args p))
                       in case estimatedAssignedPodUsage p nodeName nodeMetric of
                            None \<Rightarrow> None
                          | Some assigned \<Rightarrow>
                              (case allocatableLoop node' nodeMetric (ResourceWeights (args p))
                                      (addAll assigned estimatedUsed, []) of
                                 (estimatedUsed', allocatable) \<Rightarrow>
                                   (case loadAwareSchedulingScorer (ResourceWeights (args p))
                                           estimatedUsed' allocatable of
                                      None \<Rightarrow> None
                                    | Some score \<Rightarrow> Some (score, None)))))))"

section \<open>Package batchresource\<close>

text \<open>
  \<open>Add\<close> and \<open>SetMaxResource\<close> of \<open>framework.Resource\<close> belong to the Kubernetes scheduler
  framework.  Both go through the resource list entry by entry and treat every name on
  its own, so they are given here by what they do to each field and each scalar name:
  \<open>Add\<close> adds the entry, and stores the sum under a scalar name whether or not the name
  was there; \<open>SetMaxResource\<close>, as in Kubernetes 1.22, stores the entry only when it is
  greater than the value held (0 for a scalar name that is not there), so an entry of 0
  does not create a scalar name.  \<open>cpu\<close> is read in
  thousandths and everything else in units, and a name outside the fixed fields goes to
  \<open>ScalarResources\<close> when \<open>IsScalarResourceName\<close> accepts it.  The four batch names are
  scalar resources (two with the prefix \<open>kubernetes.io/\<close>, two extended resources); for
  other names the test is reduced to the shape of the name, without the validation of
  qualified names.  Ephemeral storage is counted, as it is with the feature gate
  \<open>LocalStorageCapacityIsolation\<close> at its default.
\<close>

fun IsScalarResourceName :: "ResourceName \<Rightarrow> bool" where
  "IsScalarResourceName BatchCPU = True"
| "IsScalarResourceName BatchMemory = True"
| "IsScalarResourceName KoordBatchCPU = True"
| "IsScalarResourceName KoordBatchMemory = True"
| "IsScalarResourceName (OtherResource s) =
     (CHR ''/'' \<in> set s \<or> take 10 s = ''hugepages-'' \<or> take 19 s = ''attachable-volumes-'')"
| "IsScalarResourceName _ = False"

definition scalarAt :: "Resource \<Rightarrow> ResourceName \<Rightarrow> int" where
  "scalarAt r k = (case ScalarResources r k of None \<Rightarrow> 0 | Some v \<Rightarrow> v)"

definition emptyResource :: Resource where
  "emptyResource =
     \<lparr>MilliCPU = 0, Memory = 0, EphemeralStorage = 0, AllowedPodNumber = 0,
      ScalarResources = Map.empty\<rparr>"

definition Add :: "Resource \<Rightarrow> ResourceList \<Rightarrow> Resource" where
  "Add r rl =
     \<lparr>MilliCPU =
        (case rl ResourceCPU of None \<Rightarrow> MilliCPU r | Some q \<Rightarrow> add64 (MilliCPU r) (MilliValue q)),
      Memory =
        (case rl ResourceMemory of None \<Rightarrow> Memory r | Some q \<Rightarrow> add64 (Memory r) (Value q)),
      EphemeralStorage =
        (case rl ResourceEphemeralStorage of None \<Rightarrow> EphemeralStorage r
         | Some q \<Rightarrow> add64 (EphemeralStorage r) (Value q)),
      AllowedPodNumber =
        (case rl ResourcePods of None \<Rightarrow> AllowedPodNumber r
         | Some q \<Rightarrow> add64 (AllowedPodNumber r) (Value q)),
      ScalarResources =
        (\<lambda>rName. if IsScalarResourceName rName
                  then (case rl rName of None \<Rightarrow> ScalarResources r rName
                        | Some q \<Rightarrow> Some (add64 (scalarAt r rName) (Value q)))
                  else ScalarResources r rName)\<rparr>"

definition SetMaxResource :: "Resource \<Rightarrow> ResourceList \<Rightarrow> Resource" where
  "SetMaxResource r rl =
     \<lparr>MilliCPU =
        (case rl ResourceCPU of None \<Rightarrow> MilliCPU r
         | Some q \<Rightarrow> if MilliValue q > MilliCPU r then MilliValue q else MilliCPU r),
      Memory =
        (case rl ResourceMemory of None \<Rightarrow> Memory r
         | Some q \<Rightarrow> if Value q > Memory r then Value q else Memory r),
      EphemeralStorage =
        (case rl ResourceEphemeralStorage of None \<Rightarrow> EphemeralStorage r
         | Some q \<Rightarrow> if Value q > EphemeralStorage r then Value q else EphemeralStorage r),
      AllowedPodNumber = AllowedPodNumber r,
      ScalarResources =
        (\<lambda>rName. if IsScalarResourceName rName
                  then (case rl rName of None \<Rightarrow> ScalarResources r rName
                        | Some q \<Rightarrow>
                            if Value q > scalarAt r rName then Some (Value q)
                            else ScalarResources r rName)
                  else ScalarResources r rName)\<rparr>"

record batchResource =
  MilliCPU :: int
  Memory :: int

text \<open>\<open>InsufficientResource\<close> of the \<open>noderesources\<close> plugin of Kubernetes.\<close>

record InsufficientResource =
  ResourceName :: ResourceName
  Reason :: string
  Requested :: int
  Used :: int
  Capacity :: int

text \<open>The two loops of \<open>computePodBatchRequest\<close>, over the containers and the init containers.\<close>

fun addContainers :: "Container list \<Rightarrow> Resource \<Rightarrow> Resource" where
  "addContainers [] podRequest = podRequest"
| "addContainers (container # rest) podRequest =
     addContainers rest (Add podRequest (Requests container))"

fun maxInitContainers :: "Container list \<Rightarrow> Resource \<Rightarrow> Resource" where
  "maxInitContainers [] podRequest = podRequest"
| "maxInitContainers (container # rest) podRequest =
     maxInitContainers rest (SetMaxResource podRequest (Requests container))"

definition computePodBatchRequest :: "Pod \<Rightarrow> batchResource" where
  "computePodBatchRequest pod' =
     (let podRequest = addContainers (Containers pod') emptyResource;
          podRequest = maxInitContainers (InitContainers pod') podRequest;
          podRequest = (case Overhead pod' of None \<Rightarrow> podRequest
                        | Some overhead \<Rightarrow> Add podRequest overhead);
          result = \<lparr>MilliCPU = 0, Memory = 0\<rparr>;
          result = (case ScalarResources podRequest KoordBatchCPU of None \<Rightarrow> result
                    | Some koordBatchCPU \<Rightarrow> result\<lparr>MilliCPU := koordBatchCPU\<rparr>);
          result = (case ScalarResources podRequest KoordBatchMemory of None \<Rightarrow> result
                    | Some koordBatchMemory \<Rightarrow> result\<lparr>Memory := koordBatchMemory\<rparr>);
          result = (case ScalarResources podRequest BatchCPU of None \<Rightarrow> result
                    | Some batchCPU \<Rightarrow> result\<lparr>MilliCPU := batchCPU\<rparr>);
          result = (case ScalarResources podRequest BatchMemory of None \<Rightarrow> result
                    | Some batchMemory \<Rightarrow> result\<lparr>Memory := batchMemory\<rparr>)
      in result)"

definition computeNodeBatchAllocatable :: "NodeInfo \<Rightarrow> batchResource" where
  "computeNodeBatchAllocatable nodeInfo =
     (let scalars = ScalarResources (NodeInfo.Allocatable nodeInfo);
          nodeAllocatable = \<lparr>MilliCPU = 0, Memory = 0\<rparr>;
          nodeAllocatable = (case scalars KoordBatchCPU of None \<Rightarrow> nodeAllocatable
                             | Some koordBatchCPU \<Rightarrow> nodeAllocatable\<lparr>MilliCPU := koordBatchCPU\<rparr>);
          nodeAllocatable = (case scalars KoordBatchMemory of None \<Rightarrow> nodeAllocatable
                             | Some koordBatchMemory \<Rightarrow> nodeAllocatable\<lparr>Memory := koordBatchMemory\<rparr>);
          nodeAllocatable = (case scalars BatchCPU of None \<Rightarrow> nodeAllocatable
                             | Some batchCPU \<Rightarrow> nodeAllocatable\<lparr>MilliCPU := batchCPU\<rparr>);
          nodeAllocatable = (case scalars BatchMemory of None \<Rightarrow> nodeAllocatable
                             | Some batchMemory \<Rightarrow> nodeAllocatable\<lparr>Memory := batchMemory\<rparr>)
      in nodeAllocatable)"

definition computeNodeBatchRequested :: "NodeInfo \<Rightarrow> batchResource" where
  "computeNodeBatchRequested nodeInfo =
     (let scalars = ScalarResources (NodeInfo.Requested nodeInfo);
          nodeRequested = \<lparr>MilliCPU = 0, Memory = 0\<rparr>;
          nodeRequested = (case scalars BatchCPU of None \<Rightarrow> nodeRequested
                           | Some batchCPU \<Rightarrow>
                               nodeRequested\<lparr>MilliCPU := add64 (MilliCPU nodeRequested) batchCPU\<rparr>);
          nodeRequested = (case scalars KoordBatchCPU of None \<Rightarrow> nodeRequested
                           | Some koordBatchCPU \<Rightarrow>
                               nodeRequested\<lparr>MilliCPU := add64 (MilliCPU nodeRequested) koordBatchCPU\<rparr>);
          nodeRequested = (case scalars BatchMemory of None \<Rightarrow> nodeRequested
                           | Some batchMemory \<Rightarrow>
                               nodeRequested\<lparr>Memory := add64 (Memory nodeRequested) batchMemory\<rparr>);
          nodeRequested = (case scalars KoordBatchMemory of None \<Rightarrow> nodeRequested
                           | Some koordBatchMemory \<Rightarrow>
                               nodeRequested\<lparr>Memory := add64 (Memory nodeRequested) koordBatchMemory\<rparr>)
      in nodeRequested)"

definition fitsRequest :: "Pod \<Rightarrow> NodeInfo \<Rightarrow> InsufficientResource list" where
  "fitsRequest pod' nodeInfo =
     (let podBatchRequest = computePodBatchRequest pod'
      in if MilliCPU podBatchRequest = 0 \<and> Memory podBatchRequest = 0 then []
         else
           (let insufficientResources = [];
                nodeRequested = computeNodeBatchRequested nodeInfo;
                nodeAllocatable = computeNodeBatchAllocatable nodeInfo;
                insufficientResources =
                  (if MilliCPU podBatchRequest > sub64 (MilliCPU nodeAllocatable) (MilliCPU nodeRequested)
                   then insufficientResources @
                     [\<lparr>ResourceName = BatchCPU, Reason = ''Insufficient batch cpu'',
                       Requested = MilliCPU podBatchRequest, Used = MilliCPU nodeRequested,
                       Capacity = MilliCPU nodeAllocatable\<rparr>]
                   else insufficientResources);
                insufficientResources =
                  (if Memory podBatchRequest > sub64 (Memory nodeAllocatable) (Memory nodeRequested)
                   then insufficientResources @
                     [\<lparr>ResourceName = BatchMemory, Reason = ''Insufficient batch memory'',
                       Requested = Memory podBatchRequest, Used = Memory nodeRequested,
                       Capacity = Memory nodeAllocatable\<rparr>]
                   else insufficientResources)
            in insufficientResources))"

definition Filter_batchresource :: "Pod \<Rightarrow> NodeInfo \<Rightarrow> Status option" where
  "Filter_batchresource pod' nodeInfo =
     (let insufficientResources = fitsRequest pod' nodeInfo
      in if length insufficientResources \<noteq> 0
         then Some (NewStatus Unschedulable (map Reason insufficientResources))
         else None)"


section \<open>Auxiliary definitions and example data\<close>

text \<open>Every value stored in the map is an \<open>int64\<close>.\<close>

definition int64values :: "int64map \<Rightarrow> bool" where
  "int64values m \<longleftrightarrow> (\<forall>(k, v) \<in> set m. is_int64 v)"

text \<open>
  The batch demand of a pod in the words of the specification (section 4.1, steps 2 and
  3, on a batch resource name, without weight and scaling factor).  Step 2 forms the
  request and the limit of the pod: the sum over the main containers, taken as a maximum
  against each init container, plus the overhead.  Step 3 takes the limit when the limit
  is above the request, and otherwise the request, clamped to the limit when a limit
  exists.
\<close>

definition requestOf :: "Container \<Rightarrow> ResourceName \<Rightarrow> int" where
  "requestOf container rName = (case Requests container rName of None \<Rightarrow> 0 | Some q \<Rightarrow> Value q)"

definition limitOf :: "Container \<Rightarrow> ResourceName \<Rightarrow> int" where
  "limitOf container rName = (case Limits container rName of None \<Rightarrow> 0 | Some q \<Rightarrow> Value q)"

definition overheadOf :: "Pod \<Rightarrow> ResourceName \<Rightarrow> int" where
  "overheadOf pod' rName =
     (case Overhead pod' of
        None \<Rightarrow> 0
      | Some overhead \<Rightarrow> (case overhead rName of None \<Rightarrow> 0 | Some q \<Rightarrow> Value q))"

definition specAggregate :: "(Container \<Rightarrow> ResourceName \<Rightarrow> int) \<Rightarrow> Pod \<Rightarrow> ResourceName \<Rightarrow> int" where
  "specAggregate quantityOf pod' rName =
     Max (set ((\<Sum>container\<leftarrow>Containers pod'. quantityOf container rName) #
               map (\<lambda>container. quantityOf container rName) (InitContainers pod'))) +
     overheadOf pod' rName"

definition specLimitExists :: "Pod \<Rightarrow> ResourceName \<Rightarrow> bool" where
  "specLimitExists pod' rName \<longleftrightarrow>
     (\<exists>container \<in> set (Containers pod' @ InitContainers pod'). Limits container rName \<noteq> None)"

definition specBatchDemand :: "Pod \<Rightarrow> ResourceName \<Rightarrow> int" where
  "specBatchDemand pod' rName =
     (let request = specAggregate requestOf pod' rName;
          limit = specAggregate limitOf pod' rName
      in if limit > request then limit
         else if specLimitExists pod' rName then min request limit
         else request)"

text \<open>
  What the source computes instead, for one resource name, from the requests alone.  The
  name is present for the pod when a main container or the overhead lists it among its
  requests, or an init container requests more than 0 of it.  The footprint of the
  requests is their sum over the main containers, taken as a maximum against the request
  of each init container that lists the name, plus the overhead when the overhead lists
  the name; a request is read in units, and sums are those of \<open>int64\<close>.
\<close>

fun initRequests :: "Container list \<Rightarrow> ResourceName \<Rightarrow> int list" where
  "initRequests [] rName = []"
| "initRequests (container # rest) rName =
     (case Requests container rName of
        None \<Rightarrow> initRequests rest rName
      | Some q \<Rightarrow> Value q # initRequests rest rName)"

definition requestPresent :: "Pod \<Rightarrow> ResourceName \<Rightarrow> bool" where
  "requestPresent pod' rName \<longleftrightarrow>
     (\<exists>container \<in> set (Containers pod'). Requests container rName \<noteq> None) \<or>
     (\<exists>v \<in> set (initRequests (InitContainers pod') rName). 0 < v) \<or>
     (case Overhead pod' of None \<Rightarrow> False | Some overhead \<Rightarrow> overhead rName \<noteq> None)"

definition requestFootprint :: "Pod \<Rightarrow> ResourceName \<Rightarrow> int" where
  "requestFootprint pod' rName =
     (let mainSum = wrap64 (\<Sum>container\<leftarrow>Containers pod'. requestOf container rName);
          largest = Max (set (mainSum # initRequests (InitContainers pod') rName))
      in case Overhead pod' of
           None \<Rightarrow> largest
         | Some overhead \<Rightarrow>
             (case overhead rName of None \<Rightarrow> largest | Some q \<Rightarrow> add64 largest (Value q)))"

text \<open>
  A pod with two main containers that request 100 and 200 of batch CPU, the second also
  1024 of batch memory under the deprecated name, an init container that requests 500 of
  batch CPU, and an overhead of 10 of batch CPU.
\<close>

definition exampleInitPod :: Pod where
  "exampleInitPod =
     \<lparr>Containers =
        [\<lparr>Requests = [BatchCPU \<mapsto> 100], Limits = Map.empty\<rparr>,
         \<lparr>Requests = [BatchCPU \<mapsto> 200, KoordBatchMemory \<mapsto> 1024], Limits = Map.empty\<rparr>],
      InitContainers = [\<lparr>Requests = [BatchCPU \<mapsto> 500], Limits = Map.empty\<rparr>],
      Overhead = Some [BatchCPU \<mapsto> 10], PriorityClass = ''koord-batch''\<rparr>"

text \<open>
  A pod of one container that requests 100 of batch CPU with a limit of 200.  A pod of two
  main containers, one requesting 100 of batch CPU under the deprecated name and one
  requesting 50 under the current name, with an init container that lists the current
  batch memory name with 0 beside a main request of 64 of batch memory under the
  deprecated name.
\<close>

definition exampleLimitPod :: Pod where
  "exampleLimitPod =
     \<lparr>Containers = [\<lparr>Requests = [BatchCPU \<mapsto> 100], Limits = [BatchCPU \<mapsto> 200]\<rparr>],
      InitContainers = [], Overhead = None, PriorityClass = ''koord-batch''\<rparr>"

definition exampleSplitPod :: Pod where
  "exampleSplitPod =
     \<lparr>Containers =
        [\<lparr>Requests = [KoordBatchCPU \<mapsto> 100, KoordBatchMemory \<mapsto> 64], Limits = Map.empty\<rparr>,
         \<lparr>Requests = [BatchCPU \<mapsto> 50], Limits = Map.empty\<rparr>],
      InitContainers = [\<lparr>Requests = [BatchMemory \<mapsto> 0], Limits = Map.empty\<rparr>],
      Overhead = None, PriorityClass = ''koord-batch''\<rparr>"

text \<open>
  The inputs of the scorer for which no \<open>int64\<close> operation wraps around and every score per
  resource lies between 0 and \<open>MaxNodeScore\<close>: weights and usages are not negative, and
  \<open>MaxNodeScore\<close> times a capacity fits an \<open>int64\<close>.
\<close>

definition wellScaled :: "int64map \<Rightarrow> int64map \<Rightarrow> int64map \<Rightarrow> bool" where
  "wellScaled ws used allocatable \<longleftrightarrow>
     (\<forall>(r, w) \<in> set ws. 0 \<le> w \<and> 0 \<le> lookup0 used r \<and>
        lookup0 allocatable r * MaxNodeScore \<le> MaxInt64)"

text \<open>
  A pod with one container that requests one CPU with a limit of one CPU, a plugin
  configured with weight 1 and scaling factor 50 for \<open>cpu\<close>, and a node \<open>node-1\<close> whose
  metric was updated at second 1000 with a report interval of 60 seconds.  Four pods are
  assigned to the node: 30 seconds before the update, 120 seconds before it, at the
  update, and one second after it.  For pods of one container without init containers and
  overhead, \<open>PodRequestsAndLimits\<close> returns the requests and the limits of that container.
  The plugin of the example has no usage thresholds, so its \<open>usagePercent\<close> is never
  consulted.
\<close>

definition examplePod :: Pod where
  "examplePod =
     \<lparr>Containers = [\<lparr>Requests = [ResourceCPU \<mapsto> 1], Limits = [ResourceCPU \<mapsto> 1]\<rparr>],
      InitContainers = [], Overhead = None, PriorityClass = ''koord-prod''\<rparr>"

definition exampleArgs :: LoadAwareSchedulingArgs where
  "exampleArgs =
     \<lparr>FilterExpiredNodeMetrics = Some True, NodeMetricExpirationSeconds = Some 180,
      ResourceWeights = [(ResourceCPU, 1)], UsageThresholds = [],
      EstimatedScalingFactors = [(ResourceCPU, 50)]\<rparr>"

definition exampleNodeMetric :: NodeMetric where
  "exampleNodeMetric =
     \<lparr>Spec_CollectPolicy = Some \<lparr>ReportIntervalSeconds = Some 60\<rparr>,
      Status_UpdateTime = Some 1000000000000,
      Status_NodeMetric_NodeUsage = Some [ResourceCPU \<mapsto> 1]\<rparr>"

definition exampleNode :: Node where
  "exampleNode =
     \<lparr>NodeName = ''node-1'', Status_Allocatable = [ResourceCPU \<mapsto> 4],
      CustomUsageThresholds = Inr []\<rparr>"

definition exampleNodeInfo :: NodeInfo where
  "exampleNodeInfo =
     \<lparr>node = Some exampleNode, Requested = emptyResource, Allocatable = emptyResource\<rparr>"

definition exampleItems :: "podAssignInfo list" where
  "exampleItems =
     [\<lparr>timestamp = 970000000000, pod = examplePod\<rparr>,
      \<lparr>timestamp = 880000000000, pod = examplePod\<rparr>,
      \<lparr>timestamp = 1000000000000, pod = examplePod\<rparr>,
      \<lparr>timestamp = 1001000000000, pod = examplePod\<rparr>]"

definition firstContainerResources :: "Pod \<Rightarrow> ResourceList \<times> ResourceList" where
  "firstContainerResources pod' =
     (case Containers pod' of [] \<Rightarrow> (Map.empty, Map.empty)
      | container # rest \<Rightarrow> (Requests container, Limits container))"

definition examplePlugin :: Plugin where
  "examplePlugin =
     \<lparr>args = exampleArgs,
      nodeMetricLister = (\<lambda>name. if name = ''node-1'' then Found exampleNodeMetric else NotFound),
      nodeInfos = (\<lambda>name. if name = ''node-1'' then Found exampleNodeInfo else NotFound),
      podInfoItems = (\<lambda>name. if name = ''node-1'' then exampleItems else []),
      PodRequestsAndLimits = firstContainerResources,
      TranslateResourceNameByPriorityClass = (\<lambda>priorityClass resourceName. resourceName),
      usagePercent = (\<lambda>used total. (used * 100) div total)\<rparr>"

text \<open>
  A node for the batch filter.  It declares 1000 of batch CPU under the current name and
  500 under the deprecated one, and 4096 of batch memory under the deprecated name only;
  300 and 500 of batch CPU and 1024 and 2048 of batch memory are requested under the two
  names.  A pod of one container that requests the given amount of batch CPU.
\<close>

definition exampleBatchNodeInfo :: NodeInfo where
  "exampleBatchNodeInfo =
     \<lparr>node = None,
      Requested = emptyResource
        \<lparr>ScalarResources := [BatchCPU \<mapsto> 300, KoordBatchCPU \<mapsto> 500,
                             BatchMemory \<mapsto> 1024, KoordBatchMemory \<mapsto> 2048]\<rparr>,
      Allocatable = emptyResource
        \<lparr>ScalarResources := [KoordBatchCPU \<mapsto> 500, BatchCPU \<mapsto> 1000,
                             KoordBatchMemory \<mapsto> 4096]\<rparr>\<rparr>"

definition exampleBatchPod :: "Quantity \<Rightarrow> Pod" where
  "exampleBatchPod batchCPU =
     \<lparr>Containers = [\<lparr>Requests = [BatchCPU \<mapsto> batchCPU], Limits = Map.empty\<rparr>],
      InitContainers = [], Overhead = None, PriorityClass = ''koord-batch''\<rparr>"

section \<open>Facts about the arithmetic\<close>

lemma floor_rat_numeral [simp]:
  "\<lfloor>(numeral a :: rat) / numeral b\<rfloor> = numeral a div numeral b"
  using floor_divide_of_int_eq [of "numeral a" "numeral b", where ?'a = rat]
  by simp

lemma ceiling_rat_numeral [simp]:
  "\<lceil>(numeral a :: rat) / numeral b\<rceil> = - ((- numeral a) div numeral b)"
proof -
  have "\<lceil>(numeral a :: rat) / numeral b\<rceil> =
        - \<lfloor>of_int (- numeral a) / (of_int (numeral b) :: rat)\<rfloor>"
    by (simp add: ceiling_def)
  also have "\<dots> = - ((- numeral a) div numeral b)"
    by (simp only: floor_divide_of_int_eq)
  finally show ?thesis .
qed

lemma wrap64_id: "is_int64 x \<Longrightarrow> wrap64 x = x"
  by (simp add: is_int64_def wrap64_def MinInt64_def MaxInt64_def)

lemma wrap64_range: "is_int64 (wrap64 x)"
  unfolding is_int64_def wrap64_def MinInt64_def MaxInt64_def
  by (smt (verit) pos_mod_bound pos_mod_sign)

lemma wrap64_add_left: "wrap64 (wrap64 x + y) = wrap64 (x + y)"
  unfolding wrap64_def by (simp add: algebra_simps mod_simps)

lemma Sub_less_iff: "0 \<le> t - u \<Longrightarrow> is_int64 d \<Longrightarrow> Sub t u < d \<longleftrightarrow> t - u < d"
  unfolding Sub_def is_int64_def MinInt64_def MaxInt64_def by auto

lemma Sub_ge_iff: "0 < d \<Longrightarrow> is_int64 d \<Longrightarrow> Sub t u \<ge> d \<longleftrightarrow> t - u \<ge> d"
  unfolding Sub_def is_int64_def MinInt64_def MaxInt64_def by auto

lemma seconds_exact:
  "- 9223372036 \<le> s \<Longrightarrow> s \<le> 9223372036 \<Longrightarrow> mul64 s Second = s * 1000000000"
  unfolding mul64_def Second_def
  by (rule wrap64_id) (simp add: is_int64_def MinInt64_def MaxInt64_def)

lemma wrap64_0 [simp]: "wrap64 0 = 0"
  by (simp add: wrap64_def)

lemma is_int64_60s: "is_int64 (60 * Second)"
  by (simp add: Second_def is_int64_def MinInt64_def MaxInt64_def)

lemma is_int64_interval: "is_int64 (getNodeMetricReportInterval nm)"
  by (simp add: getNodeMetricReportInterval_def DefaultNodeMetricReportInterval_def
      is_int64_60s mul64_def wrap64_range split: option.splits)

lemmas int64_defs = mul64_def add64_def sub64_def div64_def truncDiv_def wrap64_def Second_def
  MaxInt64_def MinInt64_def is_int64_def

lemmas quantity_defs = quantityAt_def Cmp_def IsZero_def MilliValue_def Value_def roundAway_def
  mathRound_def

section \<open>The resource estimator\<close>

text \<open>
  What \<open>estimatedUsedByResource\<close> returns outside the zero-quantity fallback: the reading
  of the limit when the limit is above the request, and otherwise the scaled request,
  rounded, or the reading of the limit if that is smaller.  A missing limit reads as 0,
  so a positive request without a limit gives 0.
\<close>

lemma mathRound_of_int: "mathRound (of_int x) = x"
  by (simp add: mathRound_def) linarith

lemma mathRound_full: "mathRound (of_int x * of_int 100 / 100) = x"
  using mathRound_of_int [of x] by simp

lemma mathRound_nonneg: "0 \<le> x \<Longrightarrow> 0 \<le> mathRound x"
  by (simp add: mathRound_def)

lemma roundAway_pos: "0 < q \<Longrightarrow> 0 < roundAway q"
  by (simp add: roundAway_def)

lemma estimatedUsedByResource_limit_above_request:
  assumes "quantityAt limits r > quantityAt requests r" and "quantityAt limits r \<noteq> 0"
  shows "estimatedUsedByResource requests limits r scalingFactor =
           (if r = ResourceCPU then MilliValue (quantityAt limits r)
            else Value (quantityAt limits r))"
  using assms mathRound_full
  by (simp add: estimatedUsedByResource_def Cmp_def IsZero_def Let_def)

lemma estimatedUsedByResource_scaled_request:
  assumes "\<not> quantityAt limits r > quantityAt requests r" and "quantityAt requests r \<noteq> 0"
  shows "estimatedUsedByResource requests limits r scalingFactor =
           (if r = ResourceCPU
            then min (mathRound (of_int (MilliValue (quantityAt requests r)) * of_int scalingFactor / 100))
                     (MilliValue (quantityAt limits r))
            else min (mathRound (of_int (Value (quantityAt requests r)) * of_int scalingFactor / 100))
                     (Value (quantityAt limits r)))"
  using assms
  by (auto simp: estimatedUsedByResource_def Cmp_def IsZero_def Let_def min_def)

lemma estimatedUsedByResource_without_limit:
  assumes "quantityAt limits r = 0" and "0 < quantityAt requests r" and "0 \<le> scalingFactor"
  shows "estimatedUsedByResource requests limits r scalingFactor = 0"
proof -
  let ?v = "if r = ResourceCPU then MilliValue (quantityAt requests r)
            else Value (quantityAt requests r)"
  have h: "\<not> quantityAt limits r > quantityAt requests r" "quantityAt requests r \<noteq> 0"
    using assms(1,2) by simp_all
  have "0 < Value (quantityAt requests r)" "0 < MilliValue (quantityAt requests r)"
    using assms(2) by (simp_all add: Value_def MilliValue_def roundAway_pos)
  then have "0 < ?v"
    by (cases "r = ResourceCPU") simp_all
  then have "0 \<le> mathRound (of_int ?v * of_int scalingFactor / 100)"
    using assms(3) by (intro mathRound_nonneg) simp
  moreover have "estimatedUsedByResource requests limits r scalingFactor =
                 min (mathRound (of_int ?v * of_int scalingFactor / 100)) 0"
    unfolding estimatedUsedByResource_scaled_request [OF h] assms(1)
    by (simp add: Value_def MilliValue_def roundAway_def)
  ultimately show ?thesis by simp
qed

text \<open>
  C1.  The estimation rule says that, when the limit is not above the request, the
  request is scaled by \<open>scalingFactor / 100\<close>, rounded, and clamped to the limit when a
  limit exists.  The source clamps against the limit quantity whether or not a limit is
  declared; a missing limit reads as the zero quantity, so a workload that declares a
  request and no limit is estimated at 0.  Here: a memory request of 100 with a scaling
  factor of 50, where the rule gives 50, and a CPU request of 2 cores with a scaling
  factor of 85, where the rule gives 1700 milli-units; no limit is declared and the
  source returns 0 for both.  With the limit declared equal to the request the source
  returns 50 and 1700.
\<close>

theorem estimatedUsedByResource_request_only:
  "estimatedUsedByResource [ResourceMemory \<mapsto> 100] Map.empty ResourceMemory 50 = 0 \<and>
   estimatedUsedByResource [ResourceCPU \<mapsto> 2] Map.empty ResourceCPU 85 = 0 \<and>
   estimatedUsedByResource [ResourceMemory \<mapsto> 100] [ResourceMemory \<mapsto> 100] ResourceMemory 50 = 50 \<and>
   estimatedUsedByResource [ResourceCPU \<mapsto> 2] [ResourceCPU \<mapsto> 2] ResourceCPU 85 = 1700"
  by (simp add: estimatedUsedByResource_def quantity_defs)

text \<open>
  C7.  When the request and the limit of a resource are both zero or absent, the estimate
  is the fixed default: 250 for \<open>cpu\<close> and the batch CPU name, \<open>200 * 1024 * 1024\<close> for
  \<open>memory\<close> and the batch memory name, 0 for every other resource, whatever the scaling
  factor.
\<close>

theorem estimatedUsedByResource_zero_default:
  "quantityAt requests r = 0 \<Longrightarrow> quantityAt limits r = 0 \<Longrightarrow>
   estimatedUsedByResource requests limits r scalingFactor =
     (if r = ResourceCPU \<or> r = BatchCPU then 250
      else if r = ResourceMemory \<or> r = BatchMemory then 200 * 1024 * 1024
      else 0)"
  by (simp add: estimatedUsedByResource_def Cmp_def IsZero_def DefaultMilliCPURequest_def
      DefaultMemoryRequest_def)

theorem estimatedUsedByResource_zero_default_witness:
  "quantityAt Map.empty ResourceMemory = 0 \<and>
   quantityAt [ResourceMemory \<mapsto> 0] ResourceMemory = 0 \<and>
   estimatedUsedByResource Map.empty [ResourceMemory \<mapsto> 0] ResourceMemory 70 = 209715200"
  using estimatedUsedByResource_zero_default
          [of Map.empty ResourceMemory "[ResourceMemory \<mapsto> 0]" 70]
  by (simp add: quantityAt_def)

section \<open>Expiration\<close>

text \<open>
  C9.  \<open>isNodeMetricExpired\<close> is true exactly when the snapshot is absent, or has no update
  timestamp, or \<open>expirationSeconds > 0\<close> and the time elapsed since the update timestamp
  is at least \<open>expirationSeconds\<close>.  The source compares two durations, \<open>time.Since\<close> of
  the timestamp and \<open>expirationSeconds\<close> seconds as a \<open>time.Duration\<close>; for a snapshot
  with a timestamp the result is false whenever \<open>expirationSeconds \<le> 0\<close>, and for every
  number of seconds that a duration can hold (up to 9223372036) the comparison is the
  one between the elapsed nanoseconds and \<open>expirationSeconds * 10^9\<close>.
\<close>

theorem isNodeMetricExpired_iff:
  "(isNodeMetricExpired now nodeMetric seconds \<longleftrightarrow>
      nodeMetric = None \<or>
      (\<exists>nm. nodeMetric = Some nm \<and> Status_UpdateTime nm = None) \<or>
      (seconds > 0 \<and>
       (\<exists>nm t. nodeMetric = Some nm \<and> Status_UpdateTime nm = Some t \<and>
          Since now t \<ge> mul64 seconds Second))) \<and>
   (\<forall>nm t. nodeMetric = Some nm \<and> Status_UpdateTime nm = Some t \<and> seconds \<le> 0 \<longrightarrow>
      \<not> isNodeMetricExpired now nodeMetric seconds) \<and>
   (\<forall>nm t. nodeMetric = Some nm \<and> Status_UpdateTime nm = Some t \<and>
      0 < seconds \<and> seconds \<le> 9223372036 \<longrightarrow>
      (isNodeMetricExpired now nodeMetric seconds \<longleftrightarrow> now - t \<ge> seconds * 1000000000))"
proof (intro conjI allI impI)
  show "isNodeMetricExpired now nodeMetric seconds \<longleftrightarrow>
      nodeMetric = None \<or>
      (\<exists>nm. nodeMetric = Some nm \<and> Status_UpdateTime nm = None) \<or>
      (seconds > 0 \<and>
       (\<exists>nm t. nodeMetric = Some nm \<and> Status_UpdateTime nm = Some t \<and>
          Since now t \<ge> mul64 seconds Second))"
    by (auto simp: isNodeMetricExpired_def split: option.splits)
next
  fix nm t
  assume "nodeMetric = Some nm \<and> Status_UpdateTime nm = Some t \<and> seconds \<le> 0"
  then show "\<not> isNodeMetricExpired now nodeMetric seconds"
    by (simp add: isNodeMetricExpired_def)
next
  fix nm t
  assume a: "nodeMetric = Some nm \<and> Status_UpdateTime nm = Some t \<and>
             0 < seconds \<and> seconds \<le> 9223372036"
  then have m: "mul64 seconds Second = seconds * 1000000000"
    by (intro seconds_exact) auto
  have r: "is_int64 (seconds * 1000000000)"
    using a by (simp add: is_int64_def MinInt64_def MaxInt64_def)
  have "Since now t \<ge> seconds * 1000000000 \<longleftrightarrow> now - t \<ge> seconds * 1000000000"
    unfolding Since_def using Sub_ge_iff [OF _ r, of now t] a by simp
  then show "isNodeMetricExpired now nodeMetric seconds \<longleftrightarrow> now - t \<ge> seconds * 1000000000"
    using a m by (simp add: isNodeMetricExpired_def)
qed

theorem isNodeMetricExpired_iff_witness:
  "isNodeMetricExpired 200000000000
     (Some \<lparr>Spec_CollectPolicy = None, Status_UpdateTime = Some 20000000000,
            Status_NodeMetric_NodeUsage = None\<rparr>) 180 \<and>
   \<not> isNodeMetricExpired 199999999999
     (Some \<lparr>Spec_CollectPolicy = None, Status_UpdateTime = Some 20000000000,
            Status_NodeMetric_NodeUsage = None\<rparr>) 180 \<and>
   \<not> isNodeMetricExpired 200000000000
     (Some \<lparr>Spec_CollectPolicy = None, Status_UpdateTime = Some 20000000000,
            Status_NodeMetric_NodeUsage = None\<rparr>) 0"
  using isNodeMetricExpired_iff
          [of 200000000000
              "Some \<lparr>Spec_CollectPolicy = None, Status_UpdateTime = Some 20000000000,
                     Status_NodeMetric_NodeUsage = None\<rparr>" 180]
        isNodeMetricExpired_iff
          [of 199999999999
              "Some \<lparr>Spec_CollectPolicy = None, Status_UpdateTime = Some 20000000000,
                     Status_NodeMetric_NodeUsage = None\<rparr>" 180]
        isNodeMetricExpired_iff
          [of 200000000000
              "Some \<lparr>Spec_CollectPolicy = None, Status_UpdateTime = Some 20000000000,
                     Status_NodeMetric_NodeUsage = None\<rparr>" 0]
  by (simp add: mul64_def wrap64_def Second_def Since_def Sub_def MaxInt64_def MinInt64_def)


section \<open>The assignment tracker\<close>

lemma lookup0_update:
  "lookup0 (AList.update k v al) r = (if r = k then v else lookup0 al r)"
  by (simp add: lookup0_def update_conv')

lemma lookup0_Cons:
  "lookup0 ((k, v) # al) r = (if r = k then v else lookup0 al r)"
  by (simp add: lookup0_def)

lemma lookup0_notin: "r \<notin> fst ` set al \<Longrightarrow> lookup0 al r = 0"
  by (simp add: lookup0_def map_of_eq_None_iff [THEN iffD2])

text \<open>Adding a map with distinct keys adds the entry of each of its keys, once.\<close>

lemma lookup0_addAll:
  "distinct (map fst est) \<Longrightarrow>
   lookup0 (addAll est acc) r =
     (if r \<in> fst ` set est then add64 (lookup0 acc r) (lookup0 est r) else lookup0 acc r)"
proof (induction est arbitrary: acc)
  case Nil
  then show ?case by simp
next
  case (Cons kv est)
  obtain k v where kv: "kv = (k, v)" by (cases kv)
  from Cons.prems kv have d: "distinct (map fst est)" and k: "k \<notin> fst ` set est" by auto
  show ?case
    using Cons.IH [OF d, of "AList.update k (add64 (lookup0 acc k) v) acc"] k
    by (auto simp: kv lookup0_update lookup0_Cons)
qed

lemma distinct_estimatedPodUsedLoop:
  "distinct (map fst acc) \<Longrightarrow>
   distinct (map fst (estimatedPodUsedLoop tr rq lm sf ws acc))"
  by (induction ws arbitrary: acc) (auto simp: Let_def distinct_update)

lemma distinct_estimatedPodUsed: "distinct (map fst (estimatedPodUsed p pd ws sf))"
  by (simp add: estimatedPodUsed_def distinct_estimatedPodUsedLoop split: prod.splits)

lemma wrap_lookup0_addAll:
  "distinct (map fst est) \<Longrightarrow>
   wrap64 (lookup0 (addAll est acc) r) = wrap64 (lookup0 acc r + lookup0 est r)"
  by (auto simp: lookup0_addAll add64_def wrap64_id [OF wrap64_range] lookup0_notin)

lemma wrap_lookup0_foldl:
  "wrap64 (lookup0 (foldl (\<lambda>acc a. addAll (estimatedPodUsed p (pod a) ws sf) acc) acc items) r) =
   wrap64 (lookup0 acc r + (\<Sum>a\<leftarrow>items. lookup0 (estimatedPodUsed p (pod a) ws sf) r))"
proof (induction items arbitrary: acc)
  case Nil
  then show ?case by simp
next
  case (Cons a items)
  have "wrap64 (lookup0 (addAll (estimatedPodUsed p (pod a) ws sf) acc) r +
                (\<Sum>a\<leftarrow>items. lookup0 (estimatedPodUsed p (pod a) ws sf) r)) =
        wrap64 (lookup0 acc r + lookup0 (estimatedPodUsed p (pod a) ws sf) r +
                (\<Sum>a\<leftarrow>items. lookup0 (estimatedPodUsed p (pod a) ws sf) r))"
    using wrap_lookup0_addAll [OF distinct_estimatedPodUsed, of p "pod a" ws sf acc r]
    by (metis wrap64_add_left)
  then show ?case
    using Cons.IH [of "addAll (estimatedPodUsed p (pod a) ws sf) acc"]
    by (simp add: add.assoc)
qed

lemma int64values_update:
  "int64values al \<Longrightarrow> is_int64 v \<Longrightarrow> int64values (AList.update k v al)"
  unfolding int64values_def by (induction al) auto

lemma int64values_addAll: "int64values acc \<Longrightarrow> int64values (addAll est acc)"
proof (induction est arbitrary: acc)
  case Nil
  then show ?case by simp
next
  case (Cons kv est)
  obtain k v where kv: "kv = (k, v)" by (cases kv)
  show ?case
    using Cons.IH [of "AList.update k (add64 (lookup0 acc k) v) acc"] Cons.prems
    by (simp add: kv int64values_update add64_def wrap64_range)
qed

lemma int64values_foldl:
  "int64values acc \<Longrightarrow> int64values (foldl (\<lambda>acc a. addAll (f a) acc) acc items)"
  by (induction items arbitrary: acc) (auto simp: int64values_addAll)

lemma int64values_lookup0:
  assumes "int64values m"
  shows "is_int64 (lookup0 m r)"
proof (cases "map_of m r")
  case None
  then show ?thesis by (simp add: lookup0_def is_int64_def MinInt64_def MaxInt64_def)
next
  case (Some v)
  then have "(r, v) \<in> set m" by (rule map_of_SomeD)
  with assms Some show ?thesis by (auto simp: lookup0_def int64values_def)
qed

text \<open>A declared report interval of up to 9223372036 seconds is that many seconds.\<close>

lemma getNodeMetricReportInterval_declared:
  assumes "Spec_CollectPolicy nodeMetric = Some policy"
      and "ReportIntervalSeconds policy = Some seconds"
      and "- 9223372036 \<le> seconds" and "seconds \<le> 9223372036"
  shows "getNodeMetricReportInterval nodeMetric = seconds * 1000000000"
  using assms by (simp add: getNodeMetricReportInterval_def seconds_exact)

text \<open>
  With an update timestamp the loop does not panic, and it adds the estimates of the
  items that pass the condition of the source, in their order.
\<close>

lemma estimatedAssignedPodUsageLoop_filter:
  "Status_UpdateTime nm = Some T \<Longrightarrow>
   estimatedAssignedPodUsageLoop p nm iv items acc =
     Some (foldl (\<lambda>acc a. addAll (estimatedPodUsed p (pod a) (ResourceWeights (args p))
                                   (EstimatedScalingFactors (args p))) acc)
             acc
             (filter (\<lambda>a. After (timestamp a) T \<or>
                          Before (timestamp a) T \<and> Sub T (timestamp a) < iv) items))"
  by (induction items arbitrary: acc) (auto simp: Let_def)

text \<open>The saturation of \<open>Sub\<close> does not show in the condition.\<close>

lemma included_iff:
  "is_int64 iv \<Longrightarrow>
   (After ts T \<or> Before ts T \<and> Sub T ts < iv) \<longleftrightarrow> (T < ts \<or> ts < T \<and> T - ts < iv)"
  using Sub_less_iff [of T ts iv] by (auto simp: After_def Before_def)

text \<open>
  C2.  For a snapshot with update timestamp \<open>T\<close>, \<open>estimatedAssignedPodUsage\<close> returns, for
  every resource, the \<open>int64\<close> sum of the estimates of exactly those assignments of the
  node whose timestamp is after \<open>T\<close>, or before \<open>T\<close> with a gap \<open>T - timestamp\<close> strictly
  smaller than the report interval: the declared number of seconds as a duration if there
  is one, 60 seconds otherwise.
\<close>

theorem estimatedAssignedPodUsage_inclusion:
  assumes "Status_UpdateTime nodeMetric = Some T"
  shows "\<exists>pending.
     estimatedAssignedPodUsage p nodeName nodeMetric = Some pending \<and>
     (\<forall>r. lookup0 pending r =
        wrap64 (\<Sum>a\<leftarrow>filter
                  (\<lambda>a. T < timestamp a \<or>
                       timestamp a < T \<and>
                       T - timestamp a <
                         (case Spec_CollectPolicy nodeMetric of
                            None \<Rightarrow> 60 * Second
                          | Some policy \<Rightarrow>
                              (case ReportIntervalSeconds policy of
                                 None \<Rightarrow> 60 * Second
                               | Some seconds \<Rightarrow> mul64 seconds Second)))
                  (podInfoItems p nodeName).
                lookup0 (estimatedPodUsed p (pod a) (ResourceWeights (args p))
                           (EstimatedScalingFactors (args p))) r))"
proof -
  let ?iv = "getNodeMetricReportInterval nodeMetric"
  let ?est = "\<lambda>a. estimatedPodUsed p (pod a) (ResourceWeights (args p))
                     (EstimatedScalingFactors (args p))"
  let ?inc = "filter (\<lambda>a. T < timestamp a \<or> timestamp a < T \<and> T - timestamp a < ?iv)
                (podInfoItems p nodeName)"
  let ?res = "foldl (\<lambda>acc a. addAll (?est a) acc) [] ?inc"
  have iv: "?iv = (case Spec_CollectPolicy nodeMetric of
                     None \<Rightarrow> 60 * Second
                   | Some policy \<Rightarrow>
                       (case ReportIntervalSeconds policy of
                          None \<Rightarrow> 60 * Second
                        | Some seconds \<Rightarrow> mul64 seconds Second))"
    by (simp add: getNodeMetricReportInterval_def DefaultNodeMetricReportInterval_def
        split: option.splits)
  have run: "estimatedAssignedPodUsage p nodeName nodeMetric = Some ?res"
    unfolding estimatedAssignedPodUsage_def Let_def
    by (simp add: estimatedAssignedPodUsageLoop_filter [OF assms]
        included_iff [OF is_int64_interval])
  have "int64values ?res"
    by (rule int64values_foldl) (simp add: int64values_def)
  then have rng: "\<And>r. is_int64 (lookup0 ?res r)"
    by (rule int64values_lookup0)
  have "\<And>r. lookup0 ?res r = wrap64 (\<Sum>a\<leftarrow>?inc. lookup0 (?est a) r)"
  proof -
    fix r
    have "wrap64 (lookup0 ?res r) = wrap64 (lookup0 [] r + (\<Sum>a\<leftarrow>?inc. lookup0 (?est a) r))"
      by (rule wrap_lookup0_foldl)
    moreover have "lookup0 [] r = 0"
      by (simp add: lookup0_def)
    ultimately show "lookup0 ?res r = wrap64 (\<Sum>a\<leftarrow>?inc. lookup0 (?est a) r)"
      using wrap64_id [OF rng [of r]] by simp
  qed
  with run show ?thesis unfolding iv by blast
qed

theorem estimatedAssignedPodUsage_inclusion_witness:
  "Status_UpdateTime exampleNodeMetric = Some 1000000000000 \<and>
   estimatedAssignedPodUsage examplePlugin ''node-1'' exampleNodeMetric =
     Some [(ResourceCPU, 1000)]"
  using estimatedAssignedPodUsage_inclusion
          [of exampleNodeMetric 1000000000000 examplePlugin "''node-1''"]
  by (simp add: examplePod_def exampleArgs_def exampleNodeMetric_def exampleItems_def
      firstContainerResources_def examplePlugin_def
      estimatedAssignedPodUsage_def getNodeMetricReportInterval_def
      estimatedPodUsed_def estimatedUsedByResource_def lookup0_def After_def Before_def Sub_def
      quantity_defs int64_defs Let_def)

text \<open>
  C10.  An assignment whose timestamp equals the update timestamp of the snapshot is
  neither after nor before it: the result is the one for the node's items without that
  assignment, whatever the report interval of the snapshot.
\<close>

theorem estimatedAssignedPodUsage_equal_timestamp:
  assumes "Status_UpdateTime nodeMetric = Some T"
      and "timestamp a = T"
      and "podInfoItems p nodeName = xs @ a # ys"
  shows "estimatedAssignedPodUsage p nodeName nodeMetric =
         estimatedAssignedPodUsage (p\<lparr>podInfoItems := (podInfoItems p)(nodeName := xs @ ys)\<rparr>)
           nodeName nodeMetric"
  unfolding estimatedAssignedPodUsage_def Let_def
  using assms(2,3)
  by (simp add: estimatedAssignedPodUsageLoop_filter [OF assms(1)] After_def Before_def
      estimatedPodUsed_def)

theorem estimatedAssignedPodUsage_equal_timestamp_witness:
  "Status_UpdateTime exampleNodeMetric = Some 1000000000000 \<and>
   timestamp \<lparr>timestamp = 1000000000000, pod = examplePod\<rparr> = 1000000000000 \<and>
   podInfoItems examplePlugin ''node-1'' =
     [\<lparr>timestamp = 970000000000, pod = examplePod\<rparr>,
      \<lparr>timestamp = 880000000000, pod = examplePod\<rparr>] @
     \<lparr>timestamp = 1000000000000, pod = examplePod\<rparr> #
     [\<lparr>timestamp = 1001000000000, pod = examplePod\<rparr>] \<and>
   estimatedAssignedPodUsage examplePlugin ''node-1'' exampleNodeMetric =
   estimatedAssignedPodUsage
     (examplePlugin\<lparr>podInfoItems := (podInfoItems examplePlugin)
        (''node-1'' := [\<lparr>timestamp = 970000000000, pod = examplePod\<rparr>,
                        \<lparr>timestamp = 880000000000, pod = examplePod\<rparr>] @
                       [\<lparr>timestamp = 1001000000000, pod = examplePod\<rparr>])\<rparr>)
     ''node-1'' exampleNodeMetric"
  using estimatedAssignedPodUsage_equal_timestamp
          [of exampleNodeMetric 1000000000000
              "\<lparr>timestamp = 1000000000000, pod = examplePod\<rparr>"
              examplePlugin "''node-1''"
              "[\<lparr>timestamp = 970000000000, pod = examplePod\<rparr>,
                \<lparr>timestamp = 880000000000, pod = examplePod\<rparr>]"
              "[\<lparr>timestamp = 1001000000000, pod = examplePod\<rparr>]"]
  by (simp add: examplePod_def exampleArgs_def exampleNodeMetric_def exampleItems_def
      examplePlugin_def)

section \<open>The batch demand of a pod\<close>

lemma scalar_Add:
  "IsScalarResourceName n \<Longrightarrow>
   ScalarResources (Add r rl) n =
     (case rl n of None \<Rightarrow> ScalarResources r n | Some q \<Rightarrow> Some (add64 (scalarAt r n) (Value q)))"
  by (simp add: Add_def)

lemma scalar_SetMaxResource:
  "IsScalarResourceName n \<Longrightarrow>
   ScalarResources (SetMaxResource r rl) n =
     (case rl n of None \<Rightarrow> ScalarResources r n
      | Some q \<Rightarrow> if Value q > scalarAt r n then Some (Value q) else ScalarResources r n)"
  by (simp add: SetMaxResource_def)

lemma scalarAt_SetMaxResource:
  "IsScalarResourceName n \<Longrightarrow>
   scalarAt (SetMaxResource r rl) n =
     (case rl n of None \<Rightarrow> scalarAt r n | Some q \<Rightarrow> max (scalarAt r n) (Value q))"
  by (simp add: scalarAt_def scalar_SetMaxResource max_def split: option.splits)

lemma sum_requestOf_zero:
  "\<forall>c \<in> set cs. Requests c n = None \<Longrightarrow> (\<Sum>c\<leftarrow>cs. requestOf c n) = 0"
  by (induction cs) (auto simp: requestOf_def)

lemma scalar_addContainers:
  "IsScalarResourceName n \<Longrightarrow>
   ScalarResources (addContainers cs r) n =
     (if \<exists>c \<in> set cs. Requests c n \<noteq> None
      then Some (wrap64 (scalarAt r n + (\<Sum>c\<leftarrow>cs. requestOf c n)))
      else ScalarResources r n)"
proof (induction cs arbitrary: r)
  case Nil
  then show ?case by simp
next
  case (Cons c cs)
  show ?case
  proof (cases "Requests c n")
    case None
    then have "ScalarResources (Add r (Requests c)) n = ScalarResources r n"
      by (simp add: scalar_Add [OF Cons.prems])
    then show ?thesis
      using Cons.IH [OF Cons.prems, of "Add r (Requests c)"] None
      by (simp add: scalarAt_def requestOf_def)
  next
    case (Some q)
    then have s: "ScalarResources (Add r (Requests c)) n = Some (add64 (scalarAt r n) (Value q))"
      by (simp add: scalar_Add [OF Cons.prems])
    then have a: "scalarAt (Add r (Requests c)) n = wrap64 (scalarAt r n + Value q)"
      by (simp add: scalarAt_def add64_def)
    have q: "requestOf c n = Value q"
      using Some by (simp add: requestOf_def)
    show ?thesis
    proof (cases "\<exists>c \<in> set cs. Requests c n \<noteq> None")
      case True
      then show ?thesis
        using Cons.IH [OF Cons.prems, of "Add r (Requests c)"] Some
        by (simp add: a q wrap64_add_left add.assoc)
    next
      case False
      then have "(\<Sum>c\<leftarrow>cs. requestOf c n) = 0"
        by (intro sum_requestOf_zero) auto
      then show ?thesis
        using Cons.IH [OF Cons.prems, of "Add r (Requests c)"] Some False s
        by (simp add: q add64_def)
    qed
  qed
qed

lemma Max_cons_max: "Max (set (max a v # xs)) = Max (set (a # v # xs))"
  by (cases xs) (simp_all add: max.assoc)

text \<open>The value under a scalar name after the init containers.\<close>

lemma scalarAt_maxInitContainers:
  "IsScalarResourceName n \<Longrightarrow>
   scalarAt (maxInitContainers cs r) n = Max (set (scalarAt r n # initRequests cs n))"
proof (induction cs arbitrary: r)
  case Nil
  then show ?case by simp
next
  case (Cons c cs)
  show ?case
  proof (cases "Requests c n")
    case None
    then show ?thesis
      using Cons.IH [OF Cons.prems, of "SetMaxResource r (Requests c)"]
      by (simp add: scalarAt_SetMaxResource [OF Cons.prems])
  next
    case (Some q)
    have "scalarAt (maxInitContainers (c # cs) r) n =
          Max (set (max (scalarAt r n) (Value q) # initRequests cs n))"
      using Cons.IH [OF Cons.prems, of "SetMaxResource r (Requests c)"] Some
      by (simp add: scalarAt_SetMaxResource [OF Cons.prems] del: set_simps Max_insert)
    also have "\<dots> = Max (set (scalarAt r n # Value q # initRequests cs n))"
      by (rule Max_cons_max)
    finally show ?thesis
      using Some by (simp del: set_simps Max_insert)
  qed
qed

text \<open>Whether a scalar name is there after the init containers.\<close>

lemma present_maxInitContainers:
  "IsScalarResourceName n \<Longrightarrow>
   ScalarResources (maxInitContainers cs r) n = None \<longleftrightarrow>
     ScalarResources r n = None \<and> (\<forall>v \<in> set (initRequests cs n). v \<le> 0)"
proof (induction cs arbitrary: r)
  case Nil
  then show ?case by simp
next
  case (Cons c cs)
  show ?case
  proof (cases "Requests c n")
    case None
    then show ?thesis
      using Cons.IH [OF Cons.prems, of "SetMaxResource r (Requests c)"]
      by (simp add: scalar_SetMaxResource [OF Cons.prems])
  next
    case (Some q)
    show ?thesis
    proof (cases "Value q > scalarAt r n")
      case True
      then have "ScalarResources (SetMaxResource r (Requests c)) n = Some (Value q)"
        using Some by (simp add: scalar_SetMaxResource [OF Cons.prems])
      moreover have "ScalarResources r n = None \<longrightarrow> 0 < Value q"
        using True by (auto simp: scalarAt_def)
      ultimately show ?thesis
        using Cons.IH [OF Cons.prems, of "SetMaxResource r (Requests c)"] Some
        by auto
    next
      case False
      then have "ScalarResources (SetMaxResource r (Requests c)) n = ScalarResources r n"
        using Some by (simp add: scalar_SetMaxResource [OF Cons.prems])
      moreover have "ScalarResources r n = None \<longrightarrow> Value q \<le> 0"
        using False by (auto simp: scalarAt_def)
      ultimately show ?thesis
        using Cons.IH [OF Cons.prems, of "SetMaxResource r (Requests c)"] Some
        by auto
    qed
  qed
qed

lemma scalarAt_None: "ScalarResources r n = None \<Longrightarrow> scalarAt r n = 0"
  by (simp add: scalarAt_def)

lemma scalarAt_Some: "ScalarResources r n = Some v \<longleftrightarrow> ScalarResources r n \<noteq> None \<and> scalarAt r n = v"
  by (auto simp: scalarAt_def)

lemma scalar_podRequest:
  assumes "IsScalarResourceName n"
  shows "ScalarResources
           (case Overhead pod' of
              None \<Rightarrow> maxInitContainers (InitContainers pod')
                        (addContainers (Containers pod') emptyResource)
            | Some overhead \<Rightarrow>
                Add (maxInitContainers (InitContainers pod')
                       (addContainers (Containers pod') emptyResource)) overhead) n =
         (if requestPresent pod' n then Some (requestFootprint pod' n) else None)"
proof -
  let ?r1 = "addContainers (Containers pod') emptyResource"
  let ?r2 = "maxInitContainers (InitContainers pod') ?r1"
  let ?sum = "wrap64 (\<Sum>c\<leftarrow>Containers pod'. requestOf c n)"
  let ?largest = "Max (set (?sum # initRequests (InitContainers pod') n))"
  let ?main = "\<exists>c \<in> set (Containers pod'). Requests c n \<noteq> None"
  let ?init = "\<exists>v \<in> set (initRequests (InitContainers pod') n). 0 < v"
  have e: "ScalarResources emptyResource n = None" "scalarAt emptyResource n = 0"
    by (simp_all add: emptyResource_def scalarAt_def)
  have r1: "ScalarResources ?r1 n = (if ?main then Some ?sum else None)"
    by (simp add: scalar_addContainers [OF assms] e)
  have a1: "scalarAt ?r1 n = ?sum"
  proof (cases ?main)
    case True
    then show ?thesis using r1 by (simp add: scalarAt_def)
  next
    case False
    then have "(\<Sum>c\<leftarrow>Containers pod'. requestOf c n) = 0"
      by (intro sum_requestOf_zero) auto
    then show ?thesis using r1 False by (simp add: scalarAt_def)
  qed
  have a2: "scalarAt ?r2 n = ?largest"
    by (simp only: scalarAt_maxInitContainers [OF assms] a1)
  have p2: "ScalarResources ?r2 n \<noteq> None \<longleftrightarrow> ?main \<or> ?init"
    using present_maxInitContainers [OF assms, of "InitContainers pod'" ?r1] r1
    by (auto simp: not_le)
  have r2: "ScalarResources ?r2 n = (if ?main \<or> ?init then Some ?largest else None)"
    using a2 p2 scalarAt_Some [of ?r2 n ?largest] by (cases "?main \<or> ?init") auto
  show ?thesis
  proof (cases "Overhead pod'")
    case None
    then show ?thesis
      using r2 by (simp add: requestPresent_def requestFootprint_def Let_def del: set_simps Max_insert)
  next
    case (Some overhead)
    then show ?thesis
      using r2 a2
      by (cases "overhead n")
         (simp_all add: scalar_Add [OF assms] requestPresent_def requestFootprint_def Let_def
            del: set_simps Max_insert)
  qed
qed

text \<open>
  C6, as the source has it.  The claim computes the batch demand by the request, limit
  and overhead rule of section 4.1, steps 2 and 3.  The source reads the requests of the
  containers and never their limits: for a pod of one container that requests 100 of
  batch CPU with a limit of 200, the rule gives 200 and the source 100.
\<close>

theorem computePodBatchRequest_ignores_limits:
  "MilliCPU (computePodBatchRequest exampleLimitPod) = 100 \<and>
   specBatchDemand exampleLimitPod BatchCPU = 200"
  by (simp add: computePodBatchRequest_def exampleLimitPod_def emptyResource_def Add_def
      scalarAt_def specBatchDemand_def specAggregate_def specLimitExists_def requestOf_def
      limitOf_def overheadOf_def Value_def roundAway_def add64_def wrap64_def Let_def)

text \<open>
  C6, amended.  The batch demand of a pod is formed from the requests alone, on the batch
  resource names themselves, without weight, scaling factor or limit.  Under each name
  the figure is the sum of the requests of the main containers, taken as a maximum
  against the request of each init container, plus the overhead.  The demand for CPU is
  the figure under the current name when that name is present for the pod, else the
  figure under the deprecated name when that one is present, else 0, and likewise for
  memory; figures under the two names are never added.
\<close>

theorem computePodBatchRequest_requests:
  "computePodBatchRequest pod' =
     \<lparr>MilliCPU =
        (if requestPresent pod' BatchCPU then requestFootprint pod' BatchCPU
         else if requestPresent pod' KoordBatchCPU then requestFootprint pod' KoordBatchCPU
         else 0),
      Memory =
        (if requestPresent pod' BatchMemory then requestFootprint pod' BatchMemory
         else if requestPresent pod' KoordBatchMemory then requestFootprint pod' KoordBatchMemory
         else 0)\<rparr>"
  using scalar_podRequest [of BatchCPU pod'] scalar_podRequest [of KoordBatchCPU pod']
        scalar_podRequest [of BatchMemory pod'] scalar_podRequest [of KoordBatchMemory pod']
  by (simp add: computePodBatchRequest_def Let_def)

theorem computePodBatchRequest_requests_witness:
  "requestPresent exampleInitPod BatchCPU \<and> requestFootprint exampleInitPod BatchCPU = 510 \<and>
   \<not> requestPresent exampleInitPod BatchMemory \<and> requestPresent exampleInitPod KoordBatchMemory \<and>
   requestFootprint exampleInitPod KoordBatchMemory = 1024 \<and>
   computePodBatchRequest exampleInitPod = \<lparr>MilliCPU = 510, Memory = 1024\<rparr> \<and>
   computePodBatchRequest exampleLimitPod = \<lparr>MilliCPU = 100, Memory = 0\<rparr> \<and>
   requestPresent exampleSplitPod BatchCPU \<and> requestPresent exampleSplitPod KoordBatchCPU \<and>
   \<not> requestPresent exampleSplitPod BatchMemory \<and>
   computePodBatchRequest exampleSplitPod = \<lparr>MilliCPU = 50, Memory = 64\<rparr>"
  using computePodBatchRequest_requests [of exampleInitPod]
        computePodBatchRequest_requests [of exampleLimitPod]
        computePodBatchRequest_requests [of exampleSplitPod]
  by (simp add: exampleInitPod_def exampleLimitPod_def exampleSplitPod_def requestPresent_def
      requestFootprint_def requestOf_def Value_def roundAway_def add64_def wrap64_def Let_def)

section \<open>The batch-tier admission filter\<close>

lemma allocatable_MilliCPU:
  "MilliCPU (computeNodeBatchAllocatable nodeInfo) =
     (case ScalarResources (NodeInfo.Allocatable nodeInfo) BatchCPU of
        Some current \<Rightarrow> current
      | None \<Rightarrow> (case ScalarResources (NodeInfo.Allocatable nodeInfo) KoordBatchCPU of
                   Some legacy \<Rightarrow> legacy | None \<Rightarrow> 0))"
  by (simp add: computeNodeBatchAllocatable_def Let_def split: option.splits)

lemma allocatable_Memory:
  "Memory (computeNodeBatchAllocatable nodeInfo) =
     (case ScalarResources (NodeInfo.Allocatable nodeInfo) BatchMemory of
        Some current \<Rightarrow> current
      | None \<Rightarrow> (case ScalarResources (NodeInfo.Allocatable nodeInfo) KoordBatchMemory of
                   Some legacy \<Rightarrow> legacy | None \<Rightarrow> 0))"
  by (simp add: computeNodeBatchAllocatable_def Let_def split: option.splits)

lemma requested_MilliCPU:
  "MilliCPU (computeNodeBatchRequested nodeInfo) =
     add64 (scalarAt (NodeInfo.Requested nodeInfo) BatchCPU)
           (scalarAt (NodeInfo.Requested nodeInfo) KoordBatchCPU)"
  by (simp add: computeNodeBatchRequested_def scalarAt_def add64_def wrap64_add_left Let_def
      split: option.splits)

lemma requested_Memory:
  "Memory (computeNodeBatchRequested nodeInfo) =
     add64 (scalarAt (NodeInfo.Requested nodeInfo) BatchMemory)
           (scalarAt (NodeInfo.Requested nodeInfo) KoordBatchMemory)"
  by (simp add: computeNodeBatchRequested_def scalarAt_def add64_def wrap64_add_left Let_def
      split: option.splits)

text \<open>
  C4.  The batch allocatable of a node is the value under the current name when there
  is one, else the value under the deprecated name, else 0: one ceiling, never a sum.
  The batch requested total is the \<open>int64\<close> sum of the values under both names (a missing
  name counts 0), which is their sum whenever that fits an \<open>int64\<close>.  Both hold for CPU
  and for memory.
\<close>

theorem node_batch_dual_naming:
  "MilliCPU (computeNodeBatchAllocatable nodeInfo) =
     (case ScalarResources (NodeInfo.Allocatable nodeInfo) BatchCPU of
        Some current \<Rightarrow> current
      | None \<Rightarrow> (case ScalarResources (NodeInfo.Allocatable nodeInfo) KoordBatchCPU of
                   Some legacy \<Rightarrow> legacy | None \<Rightarrow> 0)) \<and>
   Memory (computeNodeBatchAllocatable nodeInfo) =
     (case ScalarResources (NodeInfo.Allocatable nodeInfo) BatchMemory of
        Some current \<Rightarrow> current
      | None \<Rightarrow> (case ScalarResources (NodeInfo.Allocatable nodeInfo) KoordBatchMemory of
                   Some legacy \<Rightarrow> legacy | None \<Rightarrow> 0)) \<and>
   MilliCPU (computeNodeBatchRequested nodeInfo) =
     add64 (scalarAt (NodeInfo.Requested nodeInfo) BatchCPU)
           (scalarAt (NodeInfo.Requested nodeInfo) KoordBatchCPU) \<and>
   Memory (computeNodeBatchRequested nodeInfo) =
     add64 (scalarAt (NodeInfo.Requested nodeInfo) BatchMemory)
           (scalarAt (NodeInfo.Requested nodeInfo) KoordBatchMemory) \<and>
   (is_int64 (scalarAt (NodeInfo.Requested nodeInfo) BatchCPU +
              scalarAt (NodeInfo.Requested nodeInfo) KoordBatchCPU) \<longrightarrow>
    MilliCPU (computeNodeBatchRequested nodeInfo) =
      scalarAt (NodeInfo.Requested nodeInfo) BatchCPU +
      scalarAt (NodeInfo.Requested nodeInfo) KoordBatchCPU) \<and>
   (is_int64 (scalarAt (NodeInfo.Requested nodeInfo) BatchMemory +
              scalarAt (NodeInfo.Requested nodeInfo) KoordBatchMemory) \<longrightarrow>
    Memory (computeNodeBatchRequested nodeInfo) =
      scalarAt (NodeInfo.Requested nodeInfo) BatchMemory +
      scalarAt (NodeInfo.Requested nodeInfo) KoordBatchMemory)"
  using allocatable_MilliCPU [of nodeInfo] allocatable_Memory [of nodeInfo]
        requested_MilliCPU [of nodeInfo] requested_Memory [of nodeInfo]
  by (simp add: add64_def wrap64_id)

theorem node_batch_dual_naming_witness:
  "is_int64 (scalarAt (NodeInfo.Requested exampleBatchNodeInfo) BatchCPU +
             scalarAt (NodeInfo.Requested exampleBatchNodeInfo) KoordBatchCPU) \<and>
   is_int64 (scalarAt (NodeInfo.Requested exampleBatchNodeInfo) BatchMemory +
             scalarAt (NodeInfo.Requested exampleBatchNodeInfo) KoordBatchMemory) \<and>
   MilliCPU (computeNodeBatchAllocatable exampleBatchNodeInfo) = 1000 \<and>
   Memory (computeNodeBatchAllocatable exampleBatchNodeInfo) = 4096 \<and>
   MilliCPU (computeNodeBatchRequested exampleBatchNodeInfo) = 800 \<and>
   Memory (computeNodeBatchRequested exampleBatchNodeInfo) = 3072"
  using node_batch_dual_naming [of exampleBatchNodeInfo]
  by (simp add: exampleBatchNodeInfo_def emptyResource_def scalarAt_def is_int64_def
      MinInt64_def MaxInt64_def)

text \<open>
  C5.  When the batch demand of the pod is \<open>(0, 0)\<close> the list of insufficient resources is
  empty and the filter admits the node.  Otherwise the list is the CPU record, present
  exactly when the requested CPU is above \<open>allocatable - already requested\<close>, followed by
  the memory record, present exactly when the requested memory is above
  \<open>allocatable - already requested\<close>; the two tests do not depend on each other.  Each
  record carries the resource name, a fixed reason and the requested, used and capacity
  figures.  The filter admits exactly when the list is empty and otherwise returns
  \<open>Unschedulable\<close> with the reasons of the records.
\<close>

theorem fitsRequest_spec:
  "(MilliCPU (computePodBatchRequest pod') = 0 \<and> Memory (computePodBatchRequest pod') = 0 \<longrightarrow>
      fitsRequest pod' nodeInfo = [] \<and> Filter_batchresource pod' nodeInfo = None) \<and>
   (\<not> (MilliCPU (computePodBatchRequest pod') = 0 \<and> Memory (computePodBatchRequest pod') = 0) \<longrightarrow>
      fitsRequest pod' nodeInfo =
        (if MilliCPU (computePodBatchRequest pod') >
              sub64 (MilliCPU (computeNodeBatchAllocatable nodeInfo))
                    (MilliCPU (computeNodeBatchRequested nodeInfo))
         then [\<lparr>ResourceName = BatchCPU, Reason = ''Insufficient batch cpu'',
                Requested = MilliCPU (computePodBatchRequest pod'),
                Used = MilliCPU (computeNodeBatchRequested nodeInfo),
                Capacity = MilliCPU (computeNodeBatchAllocatable nodeInfo)\<rparr>]
         else []) @
        (if Memory (computePodBatchRequest pod') >
              sub64 (Memory (computeNodeBatchAllocatable nodeInfo))
                    (Memory (computeNodeBatchRequested nodeInfo))
         then [\<lparr>ResourceName = BatchMemory, Reason = ''Insufficient batch memory'',
                Requested = Memory (computePodBatchRequest pod'),
                Used = Memory (computeNodeBatchRequested nodeInfo),
                Capacity = Memory (computeNodeBatchAllocatable nodeInfo)\<rparr>]
         else [])) \<and>
   Filter_batchresource pod' nodeInfo =
     (if fitsRequest pod' nodeInfo = [] then None
      else Some (NewStatus Unschedulable (map Reason (fitsRequest pod' nodeInfo))))"
  by (simp add: fitsRequest_def Filter_batchresource_def Let_def)

theorem fitsRequest_spec_witness:
  "MilliCPU (computePodBatchRequest (exampleBatchPod 0)) = 0 \<and>
   Memory (computePodBatchRequest (exampleBatchPod 0)) = 0 \<and>
   fitsRequest (exampleBatchPod 0) exampleBatchNodeInfo = [] \<and>
   \<not> (MilliCPU (computePodBatchRequest (exampleBatchPod 300)) = 0 \<and>
      Memory (computePodBatchRequest (exampleBatchPod 300)) = 0) \<and>
   fitsRequest (exampleBatchPod 300) exampleBatchNodeInfo =
     [\<lparr>ResourceName = BatchCPU, Reason = ''Insufficient batch cpu'',
       Requested = 300, Used = 800, Capacity = 1000\<rparr>] \<and>
   Filter_batchresource (exampleBatchPod 300) exampleBatchNodeInfo =
     Some (NewStatus Unschedulable [''Insufficient batch cpu'']) \<and>
   Filter_batchresource (exampleBatchPod 150) exampleBatchNodeInfo = None"
  using fitsRequest_spec [of "exampleBatchPod 0" exampleBatchNodeInfo]
        fitsRequest_spec [of "exampleBatchPod 300" exampleBatchNodeInfo]
        fitsRequest_spec [of "exampleBatchPod 150" exampleBatchNodeInfo]
  by (simp add: computePodBatchRequest_def computeNodeBatchAllocatable_def
      computeNodeBatchRequested_def exampleBatchPod_def exampleBatchNodeInfo_def
      emptyResource_def Add_def scalarAt_def Value_def roundAway_def add64_def sub64_def
      wrap64_def Let_def)



section \<open>The node scorer\<close>

lemma truncDiv_nonneg: "0 \<le> a \<Longrightarrow> 0 < b \<Longrightarrow> truncDiv a b = a div b"
  by (simp add: truncDiv_def)

lemma div_bound:
  fixes a b :: int
  assumes "0 \<le> a" "0 < b" "a \<le> k * b"
  shows "0 \<le> a div b \<and> a div b \<le> k"
proof
  show "0 \<le> a div b" using assms by (simp add: pos_imp_zdiv_nonneg_iff)
  have "a div b \<le> (k * b) div b" using assms by (intro zdiv_mono1) auto
  then show "a div b \<le> k" using assms by simp
qed

lemma leastRequestedScore_exact:
  assumes "0 \<le> U" and "C * MaxNodeScore \<le> MaxInt64"
  shows "leastRequestedScore U C =
           (if C = 0 \<or> U > C then 0 else ((C - U) * MaxNodeScore) div C)"
    and "0 \<le> leastRequestedScore U C" and "leastRequestedScore U C \<le> MaxNodeScore"
proof -
  have main: "leastRequestedScore U C = ((C - U) * MaxNodeScore) div C \<and>
              0 \<le> ((C - U) * MaxNodeScore) div C \<and> ((C - U) * MaxNodeScore) div C \<le> MaxNodeScore"
    if "C \<noteq> 0" "\<not> U > C"
  proof -
    from that assms have C: "0 < C" and U: "U \<le> C" by auto
    have d: "0 \<le> C - U" "C - U \<le> C" using U assms by auto
    have cm: "C \<le> MaxInt64" using assms(2) C by (simp add: MaxNodeScore_def)
    have s: "sub64 C U = C - U"
      unfolding sub64_def using d cm by (intro wrap64_id) (simp add: is_int64_def MinInt64_def)
    have p: "0 \<le> (C - U) * MaxNodeScore" "(C - U) * MaxNodeScore \<le> MaxNodeScore * C"
      using d by (simp_all add: MaxNodeScore_def)
    have m: "mul64 (C - U) MaxNodeScore = (C - U) * MaxNodeScore"
      unfolding mul64_def using p assms(2)
      by (intro wrap64_id) (simp add: is_int64_def MinInt64_def mult.commute)
    have b: "0 \<le> ((C - U) * MaxNodeScore) div C \<and> ((C - U) * MaxNodeScore) div C \<le> MaxNodeScore"
      using p C by (intro div_bound) auto
    have q: "div64 ((C - U) * MaxNodeScore) C = ((C - U) * MaxNodeScore) div C"
      unfolding div64_def truncDiv_nonneg [OF p(1) C] using b
      by (intro wrap64_id) (simp add: is_int64_def MinInt64_def MaxInt64_def MaxNodeScore_def)
    show ?thesis using that s m q b by (simp add: leastRequestedScore_def)
  qed
  show "leastRequestedScore U C =
           (if C = 0 \<or> U > C then 0 else ((C - U) * MaxNodeScore) div C)"
    using main by (auto simp: leastRequestedScore_def)
  show "0 \<le> leastRequestedScore U C"
    using main by (cases "C \<noteq> 0 \<and> \<not> U > C") (auto simp: leastRequestedScore_def)
  show "leastRequestedScore U C \<le> MaxNodeScore"
    using main by (cases "C \<noteq> 0 \<and> \<not> U > C") (auto simp: leastRequestedScore_def MaxNodeScore_def)
qed

lemma is_int64_leastRequestedScore: "is_int64 (leastRequestedScore U C)"
  by (simp add: leastRequestedScore_def div64_def wrap64_range)
     (simp add: is_int64_def MinInt64_def MaxInt64_def)

lemma scorerLoop_exact:
  assumes "wellScaled ws used allocatable"
      and "0 \<le> nodeScore" and "nodeScore \<le> MaxNodeScore * weightSum" and "0 \<le> weightSum"
      and "(weightSum + (\<Sum>(r, w)\<leftarrow>ws. w)) * MaxNodeScore \<le> MaxInt64"
  shows "scorerLoop ws used allocatable (nodeScore, weightSum) =
           (nodeScore + (\<Sum>(r, w)\<leftarrow>ws.
                          leastRequestedScore (lookup0 used r) (lookup0 allocatable r) * w),
            weightSum + (\<Sum>(r, w)\<leftarrow>ws. w)) \<and>
         0 \<le> nodeScore + (\<Sum>(r, w)\<leftarrow>ws.
                          leastRequestedScore (lookup0 used r) (lookup0 allocatable r) * w) \<and>
         nodeScore + (\<Sum>(r, w)\<leftarrow>ws.
                          leastRequestedScore (lookup0 used r) (lookup0 allocatable r) * w)
           \<le> MaxNodeScore * (weightSum + (\<Sum>(r, w)\<leftarrow>ws. w))"
  using assms
proof (induction ws arbitrary: nodeScore weightSum)
  case Nil
  then show ?case by simp
next
  case (Cons rw ws)
  obtain r w where rw: "rw = (r, w)" by (cases rw)
  let ?s = "leastRequestedScore (lookup0 used r) (lookup0 allocatable r)"
  from Cons.prems(1) rw have w: "0 \<le> w" and u: "0 \<le> lookup0 used r"
    and c: "lookup0 allocatable r * MaxNodeScore \<le> MaxInt64"
    and rest: "wellScaled ws used allocatable"
    by (auto simp: wellScaled_def)
  have s: "0 \<le> ?s" "?s \<le> MaxNodeScore"
    using leastRequestedScore_exact(2,3) [OF u c] by auto
  have rest_nonneg: "0 \<le> (\<Sum>(r, w)\<leftarrow>ws. w)"
    using rest by (induction ws) (auto simp: wellScaled_def)
  have tot: "(weightSum + w + (\<Sum>(r, w)\<leftarrow>ws. w)) * MaxNodeScore \<le> MaxInt64"
    using Cons.prems(5) by (simp add: rw add.assoc)
  have sw: "0 \<le> ?s * w" "?s * w \<le> MaxNodeScore * w"
    using s w by (simp_all add: mult_right_mono)
  have wb: "MaxNodeScore * (weightSum + w) \<le> MaxInt64"
    using tot rest_nonneg by (simp add: MaxNodeScore_def)
  have m: "mul64 ?s w = ?s * w"
    unfolding mul64_def using sw wb Cons.prems(4) w
    by (intro wrap64_id) (simp add: is_int64_def MinInt64_def MaxNodeScore_def)
  have ns: "0 \<le> nodeScore + ?s * w" "nodeScore + ?s * w \<le> MaxNodeScore * (weightSum + w)"
    using sw Cons.prems(2,3) by (simp_all add: distrib_left)
  have a: "add64 nodeScore (?s * w) = nodeScore + ?s * w"
    unfolding add64_def using ns wb
    by (intro wrap64_id) (simp add: is_int64_def MinInt64_def)
  have a2: "add64 weightSum w = weightSum + w"
    unfolding add64_def using wb Cons.prems(4) w
    by (intro wrap64_id) (simp add: is_int64_def MinInt64_def MaxNodeScore_def)
  have ws0: "0 \<le> weightSum + w" using Cons.prems(4) w by simp
  show ?case
    using Cons.IH [OF rest ns ws0 tot]
    by (simp add: rw m a a2 Let_def add.assoc)
qed

lemma truncDiv_one: "truncDiv s 1 = s"
  by (simp add: truncDiv_def)

lemma scorer_single:
  "loadAwareSchedulingScorer [(r, 1)] used allocatable =
     Some (leastRequestedScore (lookup0 used r) (lookup0 allocatable r))"
  using wrap64_id [OF is_int64_leastRequestedScore, of "lookup0 used r" "lookup0 allocatable r"]
  by (simp add: loadAwareSchedulingScorer_def Let_def add64_def mul64_def div64_def truncDiv_one
      wrap64_def [of 1])


text \<open>
  Go iterates over a map in no fixed order.  The scorer adds up \<open>int64\<close> values, so its
  result is the same for every order of the weight map.
\<close>

lemma scorerLoop_sums:
  "scorerLoop ws used allocatable (nodeScore, weightSum) =
     (if ws = [] then (nodeScore, weightSum)
      else (wrap64 (nodeScore +
              (\<Sum>(r, w)\<leftarrow>ws. mul64 (leastRequestedScore (lookup0 used r) (lookup0 allocatable r)) w)),
            wrap64 (weightSum + (\<Sum>(r, w)\<leftarrow>ws. w))))"
proof (induction ws arbitrary: nodeScore weightSum)
  case Nil
  then show ?case by simp
next
  case (Cons rw ws)
  obtain r w where rw: "rw = (r, w)" by (cases rw)
  show ?case
    by (simp add: rw Cons.IH Let_def add64_def wrap64_add_left add.assoc)
qed

lemma sum_list_mset_cong:
  fixes f :: "'a \<Rightarrow> int"
  assumes "mset xs = mset ys"
  shows "(\<Sum>x\<leftarrow>xs. f x) = (\<Sum>x\<leftarrow>ys. f x)"
proof -
  have "(\<Sum>x\<leftarrow>xs. f x) = sum_mset (image_mset f (mset xs))"
    by (simp flip: sum_mset_sum_list)
  also have "\<dots> = sum_mset (image_mset f (mset ys))"
    using assms by simp
  also have "\<dots> = (\<Sum>x\<leftarrow>ys. f x)"
    by (simp flip: sum_mset_sum_list)
  finally show ?thesis .
qed

lemma loadAwareSchedulingScorer_order:
  assumes "mset ws = mset ws'"
  shows "loadAwareSchedulingScorer ws used allocatable =
         loadAwareSchedulingScorer ws' used allocatable"
proof -
  have e: "ws = [] \<longleftrightarrow> ws' = []"
    using assms by (metis mset_zero_iff)
  show ?thesis
    unfolding loadAwareSchedulingScorer_def scorerLoop_sums
    using e sum_list_mset_cong [OF assms, of "\<lambda>(r, w). w"]
      sum_list_mset_cong [OF assms,
        of "\<lambda>(r, w). mul64 (leastRequestedScore (lookup0 used r) (lookup0 allocatable r)) w"]
    by simp
qed

text \<open>
  C3, as the source has it.  The claim gives the score per resource, the weighted
  average and the range \<open>[0, MaxNodeScore]\<close> for every weight map of positive total weight
  and every pair of usage and capacity maps.  The source computes on \<open>int64\<close> and does
  not look at signs, so the range fails for a negative usage: with weight 1, usage
  \<open>-10\<close> and capacity 10 the score is 200.
\<close>

theorem loadAwareSchedulingScorer_negative_usage:
  "loadAwareSchedulingScorer [(ResourceCPU, 1)] [(ResourceCPU, - 10)] [(ResourceCPU, 10)] = Some 200 \<and>
   \<not> 200 \<le> MaxNodeScore"
  by (simp add: loadAwareSchedulingScorer_def lookup0_def leastRequestedScore_def MaxNodeScore_def
      int64_defs)

text \<open>
  C3, amended.  Let the weights and the usages of the weighted resources be not negative,
  let \<open>MaxNodeScore\<close> times each capacity and \<open>MaxNodeScore\<close> times the weight sum fit an
  \<open>int64\<close>, and let the weight sum be positive.  Then the score of each weighted resource
  is 0 when the capacity is 0 or the usage exceeds it and otherwise
  \<open>((capacity - usage) * MaxNodeScore) / capacity\<close>, truncated; the result is the weighted
  sum of these scores divided by the sum of the weights, truncated; and it lies between 0
  and \<open>MaxNodeScore\<close>.  With a single resource of weight 1 the result is the score of that
  resource, for all usages and capacities.
\<close>

theorem loadAwareSchedulingScorer_spec:
  assumes "\<forall>(r, w) \<in> set ws. 0 \<le> w \<and> 0 \<le> lookup0 used r \<and>
             lookup0 allocatable r * MaxNodeScore \<le> MaxInt64"
      and "0 < (\<Sum>(r, w)\<leftarrow>ws. w)"
      and "(\<Sum>(r, w)\<leftarrow>ws. w) * MaxNodeScore \<le> MaxInt64"
  shows "(\<forall>(r, w) \<in> set ws.
            leastRequestedScore (lookup0 used r) (lookup0 allocatable r) =
              (if lookup0 allocatable r = 0 \<or> lookup0 used r > lookup0 allocatable r then 0
               else truncDiv ((lookup0 allocatable r - lookup0 used r) * MaxNodeScore)
                      (lookup0 allocatable r))) \<and>
         loadAwareSchedulingScorer ws used allocatable =
           Some (truncDiv
                   (\<Sum>(r, w)\<leftarrow>ws.
                       leastRequestedScore (lookup0 used r) (lookup0 allocatable r) * w)
                   (\<Sum>(r, w)\<leftarrow>ws. w)) \<and>
         (\<forall>r. loadAwareSchedulingScorer [(r, 1)] used allocatable =
                Some (leastRequestedScore (lookup0 used r) (lookup0 allocatable r))) \<and>
         (\<exists>score. loadAwareSchedulingScorer ws used allocatable = Some score \<and>
                   0 \<le> score \<and> score \<le> MaxNodeScore)"
proof -
  let ?N = "\<Sum>(r, w)\<leftarrow>ws. leastRequestedScore (lookup0 used r) (lookup0 allocatable r) * w"
  let ?W = "\<Sum>(r, w)\<leftarrow>ws. w"
  have ws: "wellScaled ws used allocatable"
    using assms(1) by (simp add: wellScaled_def)
  have per: "\<forall>(r, w) \<in> set ws.
            leastRequestedScore (lookup0 used r) (lookup0 allocatable r) =
              (if lookup0 allocatable r = 0 \<or> lookup0 used r > lookup0 allocatable r then 0
               else truncDiv ((lookup0 allocatable r - lookup0 used r) * MaxNodeScore)
                      (lookup0 allocatable r))"
  proof (clarify)
    fix r w assume "(r, w) \<in> set ws"
    with assms(1) have u: "0 \<le> lookup0 used r"
      and c: "lookup0 allocatable r * MaxNodeScore \<le> MaxInt64" by auto
    show "leastRequestedScore (lookup0 used r) (lookup0 allocatable r) =
              (if lookup0 allocatable r = 0 \<or> lookup0 used r > lookup0 allocatable r then 0
               else truncDiv ((lookup0 allocatable r - lookup0 used r) * MaxNodeScore)
                      (lookup0 allocatable r))"
      using leastRequestedScore_exact(1) [OF u c] u
      by (auto simp: truncDiv_nonneg MaxNodeScore_def)
  qed
  have loop: "scorerLoop ws used allocatable (0, 0) = (0 + ?N, 0 + ?W) \<and>
              0 \<le> 0 + ?N \<and> 0 + ?N \<le> MaxNodeScore * (0 + ?W)"
    using assms(3) by (intro scorerLoop_exact [OF ws]) auto
  then have N: "0 \<le> ?N" "?N \<le> MaxNodeScore * ?W" by auto
  have b: "0 \<le> ?N div ?W \<and> ?N div ?W \<le> MaxNodeScore"
    using N assms(2) by (intro div_bound) auto
  have q: "div64 ?N ?W = ?N div ?W"
    unfolding div64_def truncDiv_nonneg [OF N(1) assms(2)] using b
    by (intro wrap64_id) (simp add: is_int64_def MinInt64_def MaxInt64_def MaxNodeScore_def)
  have res: "loadAwareSchedulingScorer ws used allocatable = Some (truncDiv ?N ?W)"
    using loop assms(2) q
    by (simp add: loadAwareSchedulingScorer_def truncDiv_nonneg [OF N(1) assms(2)])
  have bound: "\<exists>score. loadAwareSchedulingScorer ws used allocatable = Some score \<and>
                   0 \<le> score \<and> score \<le> MaxNodeScore"
    using res b by (simp add: truncDiv_nonneg [OF N(1) assms(2)])
  show ?thesis
    using per res bound scorer_single by blast
qed

theorem loadAwareSchedulingScorer_spec_witness:
  "0 \<le> (1 :: int) \<and> 0 \<le> (2 :: int) \<and>
   0 \<le> lookup0 [(ResourceCPU, 2500), (ResourceMemory, 1000)] ResourceCPU \<and>
   0 \<le> lookup0 [(ResourceCPU, 2500), (ResourceMemory, 1000)] ResourceMemory \<and>
   lookup0 [(ResourceCPU, 4000), (ResourceMemory, 3000)] ResourceCPU * MaxNodeScore \<le> MaxInt64 \<and>
   lookup0 [(ResourceCPU, 4000), (ResourceMemory, 3000)] ResourceMemory * MaxNodeScore \<le> MaxInt64 \<and>
   0 < (\<Sum>(r, w)\<leftarrow>[(ResourceCPU, 1), (ResourceMemory, 2 :: int)]. w) \<and>
   (\<Sum>(r, w)\<leftarrow>[(ResourceCPU, 1), (ResourceMemory, 2 :: int)]. w) * MaxNodeScore \<le> MaxInt64 \<and>
   loadAwareSchedulingScorer [(ResourceCPU, 1), (ResourceMemory, 2)]
     [(ResourceCPU, 2500), (ResourceMemory, 1000)]
     [(ResourceCPU, 4000), (ResourceMemory, 3000)] = Some 56"
proof -
  let ?ws = "[(ResourceCPU, 1), (ResourceMemory, 2 :: int)]"
  let ?used = "[(ResourceCPU, 2500), (ResourceMemory, 1000 :: int)]"
  let ?alloc = "[(ResourceCPU, 4000), (ResourceMemory, 3000 :: int)]"
  have h1: "\<forall>(r, w) \<in> set ?ws. 0 \<le> w \<and> 0 \<le> lookup0 ?used r \<and>
      lookup0 ?alloc r * MaxNodeScore \<le> MaxInt64"
    by (simp add: lookup0_def MaxNodeScore_def MaxInt64_def)
  have h2: "0 < (\<Sum>(r, w)\<leftarrow>?ws. w)" by simp
  have h3: "(\<Sum>(r, w)\<leftarrow>?ws. w) * MaxNodeScore \<le> MaxInt64"
    by (simp add: MaxNodeScore_def MaxInt64_def)
  have cpu: "leastRequestedScore 2500 4000 = 37"
    by (simp add: leastRequestedScore_def MaxNodeScore_def int64_defs)
  have mem: "leastRequestedScore 1000 3000 = 66"
    by (simp add: leastRequestedScore_def MaxNodeScore_def int64_defs)
  have "loadAwareSchedulingScorer ?ws ?used ?alloc =
          Some (truncDiv
                   (\<Sum>(r, w)\<leftarrow>?ws. leastRequestedScore (lookup0 ?used r) (lookup0 ?alloc r) * w)
                   (\<Sum>(r, w)\<leftarrow>?ws. w))"
    using loadAwareSchedulingScorer_spec [OF h1 h2 h3] by blast
  then have "loadAwareSchedulingScorer ?ws ?used ?alloc = Some 56"
    by (simp add: lookup0_def cpu mem truncDiv_def)
  with h1 h2 h3 show ?thesis by simp
qed

section \<open>Absent and expired snapshots\<close>

text \<open>
  C8, as the source has it.  The claim lets the filter reject a node whose snapshot is
  expired.  The source does so only under the option \<open>FilterExpiredNodeMetrics\<close>: with
  the option switched off, a snapshot that is 180 seconds old under an expiration of 180
  seconds passes the filter.
\<close>

theorem Filter_expired_gate_disabled:
  "node exampleNodeInfo = Some exampleNode \<and>
   nodeMetricLister (examplePlugin\<lparr>args := exampleArgs\<lparr>FilterExpiredNodeMetrics := Some False\<rparr>\<rparr>)
     (NodeName exampleNode) = Found exampleNodeMetric \<and>
   NodeMetricExpirationSeconds
     (args (examplePlugin\<lparr>args := exampleArgs\<lparr>FilterExpiredNodeMetrics := Some False\<rparr>\<rparr>)) = Some 180 \<and>
   isNodeMetricExpired 1180000000000 (Some exampleNodeMetric) 180 \<and>
   Filter_loadaware (examplePlugin\<lparr>args := exampleArgs\<lparr>FilterExpiredNodeMetrics := Some False\<rparr>\<rparr>)
     1180000000000 examplePod exampleNodeInfo = None"
  by (simp add: Filter_loadaware_def examplePlugin_def exampleNodeInfo_def exampleNode_def
      exampleArgs_def exampleNodeMetric_def isNodeMetricExpired_def Since_def Sub_def int64_defs)

text \<open>
  C8, amended.  For a node that is found: when the metric lookup answers not-found,
  \<open>Score\<close> returns 0 without a status and \<open>Filter\<close> admits the node; when the snapshot is
  found and expired against the configured \<open>NodeMetricExpirationSeconds\<close>, \<open>Score\<close>
  returns 0 without a status, and \<open>Filter\<close> rejects the node as \<open>Unschedulable\<close> when
  \<open>FilterExpiredNodeMetrics\<close> is switched on.
\<close>

theorem snapshot_absent_or_expired:
  "(node nodeInfo = Some node' \<and> nodeMetricLister p (NodeName node') = NotFound \<longrightarrow>
      Filter_loadaware p now pod' nodeInfo = None) \<and>
   (nodeInfos p nodeName = Found nodeInfo \<and> node nodeInfo = Some node' \<and>
    nodeMetricLister p nodeName = NotFound \<longrightarrow>
      Score p now pod' nodeName = Some (0, None)) \<and>
   (nodeInfos p nodeName = Found nodeInfo \<and> node nodeInfo = Some node' \<and>
    nodeMetricLister p nodeName = Found nodeMetric \<and>
    NodeMetricExpirationSeconds (args p) = Some seconds \<and>
    isNodeMetricExpired now (Some nodeMetric) seconds \<longrightarrow>
      Score p now pod' nodeName = Some (0, None)) \<and>
   (node nodeInfo = Some node' \<and> nodeMetricLister p (NodeName node') = Found nodeMetric \<and>
    NodeMetricExpirationSeconds (args p) = Some seconds \<and>
    isNodeMetricExpired now (Some nodeMetric) seconds \<and>
    FilterExpiredNodeMetrics (args p) = Some True \<longrightarrow>
      Filter_loadaware p now pod' nodeInfo =
        Some (NewStatus Unschedulable [ErrReasonNodeMetricExpired]))"
  by (simp add: Filter_loadaware_def Score_def)


theorem snapshot_absent_or_expired_witness:
  "node exampleNodeInfo = Some exampleNode \<and>
   nodeInfos examplePlugin ''node-1'' = Found exampleNodeInfo \<and>
   nodeMetricLister examplePlugin ''node-1'' = Found exampleNodeMetric \<and>
   nodeMetricLister examplePlugin ''node-2'' = NotFound \<and>
   NodeMetricExpirationSeconds (args examplePlugin) = Some 180 \<and>
   FilterExpiredNodeMetrics (args examplePlugin) = Some True \<and>
   isNodeMetricExpired 1180000000000 (Some exampleNodeMetric) 180 \<and>
   Score examplePlugin 1180000000000 examplePod ''node-1'' = Some (0, None) \<and>
   Filter_loadaware examplePlugin 1180000000000 examplePod exampleNodeInfo =
     Some (NewStatus Unschedulable [ErrReasonNodeMetricExpired]) \<and>
   Filter_loadaware examplePlugin 1180000000000 examplePod
     (exampleNodeInfo\<lparr>node := Some (exampleNode\<lparr>NodeName := ''node-2''\<rparr>)\<rparr>) = None \<and>
   Score (examplePlugin\<lparr>nodeInfos := (\<lambda>name. Found exampleNodeInfo)\<rparr>) 1180000000000
     examplePod ''node-2'' = Some (0, None)"
  using snapshot_absent_or_expired [of exampleNodeInfo exampleNode examplePlugin 1180000000000 examplePod "''node-1''"
               exampleNodeMetric 180]
        snapshot_absent_or_expired [of "exampleNodeInfo\<lparr>node := Some (exampleNode\<lparr>NodeName := ''node-2''\<rparr>)\<rparr>"
               "exampleNode\<lparr>NodeName := ''node-2''\<rparr>" examplePlugin 1180000000000 examplePod]
        snapshot_absent_or_expired [of exampleNodeInfo exampleNode "examplePlugin\<lparr>nodeInfos := (\<lambda>name. Found exampleNodeInfo)\<rparr>"
               1180000000000 examplePod "''node-2''"]
  by (simp add: examplePlugin_def exampleNodeInfo_def exampleNode_def exampleArgs_def
      exampleNodeMetric_def isNodeMetricExpired_def Since_def Sub_def int64_defs)



end
